theory Spec2Isabelle
  imports Complex_Main
begin

section \<open>Python values used by the fitting scripts\<close>

text \<open>
  The scripts \<^verbatim>\<open>fit_global_model7.py\<close> and \<^verbatim>\<open>fit_global.py\<close> are top-level Python
  programs. An uncaught Python exception ends the run; it is a value of \<open>py_error\<close>.
\<close>

datatype py_error =
    NameError string
  | ArgumentTypeError string

text \<open>\<^verbatim>\<open>str(n)\<close> of a non-negative Python int: its decimal digits.\<close>

definition digit_char :: "nat \<Rightarrow> char" where
  "digit_char d = char_of (48 + d)"

fun str_nat :: "nat \<Rightarrow> string" where
  "str_nat n = (if n < 10 then [digit_char n] else str_nat (n div 10) @ [digit_char (n mod 10)])"

declare str_nat.simps [simp del]

definition str_int :: "int \<Rightarrow> string" where
  "str_int i = (if i < 0 then CHR ''-'' # str_nat (nat (- i)) else str_nat (nat i))"

section \<open>Command line: \<^verbatim>\<open>size_argument\<close> and \<^verbatim>\<open>generate_list\<close>\<close>

text \<open>
  \<^verbatim>\<open>size_argument(value)\<close>: the string must consist of digits, and the integer must lie
  in 1..800 and be divisible by 10. Strings are byte strings here, so \<^verbatim>\<open>isdigit\<close> is the
  test for the ASCII digits.
\<close>

definition isdigit :: "string \<Rightarrow> bool" where
  "isdigit v = (v \<noteq> [] \<and> list_all (\<lambda>c. 48 \<le> (of_char c :: nat) \<and> (of_char c :: nat) \<le> 57) v)"

definition int_of_digits :: "string \<Rightarrow> int" where
  "int_of_digits v = foldl (\<lambda>acc c. 10 * acc + (of_char c - 48)) 0 v"

definition size_argument :: "string \<Rightarrow> py_error + int" where
  "size_argument v =
     (if isdigit v then
        (let int_value = int_of_digits v in
         if 1 \<le> int_value \<and> int_value \<le> 800 \<and> int_value mod 10 = 0
         then Inr int_value
         else Inl (ArgumentTypeError ''Integer value must be between 1 and 800 and be divisible by 10.''))
      else Inl (ArgumentTypeError ''Invalid value.Choose an integer between 1 and 800 that is divisible by 10.''))"

text \<open>
  \<^verbatim>\<open>generate_list\<close>: the \<^verbatim>\<open>while\<close> loop over the pair
  (\<^verbatim>\<open>result_list\<close>, \<^verbatim>\<open>current_value\<close>). The loop runs while the list is empty or its
  last element is below the requested size.
\<close>

function generate_loop :: "int \<Rightarrow> int list \<Rightarrow> int \<Rightarrow> int list" where
  "generate_loop size_value_local result_list current_value =
     (if result_list = [] \<or> last result_list < size_value_local
      then generate_loop size_value_local (result_list @ [current_value]) (current_value + 10)
      else result_list)"
  by pat_completeness auto
termination
  by (relation "measure (\<lambda>(s, r, c). if r = [] \<or> last r < s then 1 + nat (s - c) else 0)") auto

declare generate_loop.simps [simp del]

definition generate_list :: "int \<Rightarrow> int list" where
  "generate_list size_value_local = generate_loop size_value_local [] 10"

text \<open>The multiples of ten up to \<open>10 * k\<close>, for stating what \<open>generate_list\<close> returns.\<close>

definition tens :: "int \<Rightarrow> int list" where
  "tens k = map (\<lambda>i. 10 * i) [1..k]"

section \<open>Data loading: the four \<^verbatim>\<open>TChain\<close>s\<close>

text \<open>
  A \<^verbatim>\<open>TChain\<close> is the tree name, the files added so far (in order, duplicates kept) and
  the branch-status calls made on it. \<^verbatim>\<open>GetEntries\<close> is the total number of entries of
  the files of the chain; the number of entries of a file is a parameter.
\<close>

record tchain =
  tree_name :: string
  files :: "string list"
  branch_status :: "(string \<times> nat) list"

definition TChain :: "string \<Rightarrow> tchain" where
  "TChain n = \<lparr>tree_name = n, files = [], branch_status = []\<rparr>"

definition Add :: "string \<Rightarrow> tchain \<Rightarrow> tchain" where
  "Add f c = c\<lparr>files := files c @ [f]\<rparr>"

definition SetBranchStatus :: "string \<Rightarrow> nat \<Rightarrow> tchain \<Rightarrow> tchain" where
  "SetBranchStatus b st c = c\<lparr>branch_status := branch_status c @ [(b, st)]\<rparr>"

definition GetEntries :: "(string \<Rightarrow> nat) \<Rightarrow> tchain \<Rightarrow> nat" where
  "GetEntries entries c = sum_list (map entries (files c))"

record args =
  year :: int
  size_arg :: int
  path :: string
  binned_fit :: string
  input :: string
  scheme :: string
  bin :: "string option"

definition str_opt :: "string option \<Rightarrow> string" where
  "str_opt b = (case b of None \<Rightarrow> ''None'' | Some s \<Rightarrow> s)"

text \<open>The file names of the \<^verbatim>\<open>total\<close> scheme (lines 165 to 180 of the script).\<close>

definition total_file :: "args \<Rightarrow> string \<Rightarrow> string \<Rightarrow> string" where
  "total_file a pol meson =
     input a @ ''/20'' @ str_int (year a) @ ''/'' @ pol @ ''/'' @ meson @ ''/'' @ meson @ ''_'' @ pol
       @ ''_data_'' @ str_int (year a) @ ''_'' @ str_int (size_arg a) @ ''_clean.root''"

text \<open>The file names of the other schemes (lines 186 to 204).\<close>

definition bin_file :: "args \<Rightarrow> string \<Rightarrow> string \<Rightarrow> string" where
  "bin_file a pol meson =
     input a @ ''/'' @ meson @ ''_'' @ pol @ ''_'' @ str_int (year a) @ ''_'' @ str_int (size_arg a)
       @ ''_bin'' @ str_opt (bin a) @ ''.root''"

record chains =
  ttree_D0_up :: tchain
  ttree_D0_down :: tchain
  ttree_D0bar_up :: tchain
  ttree_D0bar_down :: tchain

definition select_D0_MM :: "tchain \<Rightarrow> tchain" where
  "select_D0_MM c = SetBranchStatus ''D0_MM'' 1 (SetBranchStatus ''*'' 0 c)"

text \<open>
  One pass of the body of \<^verbatim>\<open>for valuesize in size_list\<close>; the body never reads
  \<^verbatim>\<open>valuesize\<close>. The size is an \<^verbatim>\<open>int\<close> after \<^verbatim>\<open>size_argument\<close>, so the test
  \<^verbatim>\<open>isinstance(size_value, int)\<close> around the loop always holds.
\<close>

definition load_step :: "args \<Rightarrow> int \<Rightarrow> chains \<Rightarrow> chains" where
  "load_step a valuesize cs =
     (if scheme a = ''total'' then
        \<lparr>ttree_D0_up = select_D0_MM (Add (total_file a ''up'' ''D0'') (ttree_D0_up cs)),
         ttree_D0_down = select_D0_MM (Add (total_file a ''down'' ''D0'') (ttree_D0_down cs)),
         ttree_D0bar_up = select_D0_MM (Add (total_file a ''up'' ''D0bar'') (ttree_D0bar_up cs)),
         ttree_D0bar_down = select_D0_MM (Add (total_file a ''down'' ''D0bar'') (ttree_D0bar_down cs))\<rparr>
      else
        \<lparr>ttree_D0_up = select_D0_MM (Add (bin_file a ''up'' ''D0'') (TChain ''D02Kpi_Tuple/DecayTree'')),
         ttree_D0_down = select_D0_MM (Add (bin_file a ''down'' ''D0'') (TChain ''D02Kpi_Tuple/DecayTree'')),
         ttree_D0bar_up = select_D0_MM (Add (bin_file a ''up'' ''D0bar'') (TChain ''D02Kpi_Tuple/DecayTree'')),
         ttree_D0bar_down = select_D0_MM (Add (bin_file a ''down'' ''D0bar'') (TChain ''D02Kpi_Tuple/DecayTree''))\<rparr>)"

definition initial_chains :: chains where
  "initial_chains =
     \<lparr>ttree_D0_up = TChain ''D02Kpi_Tuple/DecayTree'',
      ttree_D0_down = TChain ''D02Kpi_Tuple/DecayTree'',
      ttree_D0bar_up = TChain ''D02Kpi_Tuple/DecayTree'',
      ttree_D0bar_down = TChain ''D02Kpi_Tuple/DecayTree''\<rparr>"

definition load_data :: "args \<Rightarrow> chains" where
  "load_data a = fold (load_step a) (generate_list (size_arg a)) initial_chains"

section \<open>The parameter registry: \<^verbatim>\<open>RooRealVar\<close> objects in a store\<close>

text \<open>
  Every call of \<^verbatim>\<open>RooRealVar(...)\<close> creates a new object. Objects live in a store (a list);
  the address of an object is its position, and a Python variable holds an address. Two
  objects may carry the same name. The error of a fresh variable is ROOT's marker \<open>-1\<close>.
\<close>

record roorealvar =
  name :: string
  title :: string
  val :: real
  err :: real
  lo :: real
  hi :: real

type_synonym addr = nat

definition RooRealVar ::
  "string \<Rightarrow> string \<Rightarrow> real \<Rightarrow> real \<Rightarrow> real \<Rightarrow> roorealvar list \<Rightarrow> addr \<times> roorealvar list" where
  "RooRealVar n t v l h heap =
     (length heap, heap @ [\<lparr>name = n, title = t, val = v, err = - 1, lo = l, hi = h\<rparr>])"

text \<open>The constructor with a range only (used for the observable) starts at the midpoint.\<close>

definition RooRealVar_range ::
  "string \<Rightarrow> string \<Rightarrow> real \<Rightarrow> real \<Rightarrow> roorealvar list \<Rightarrow> addr \<times> roorealvar list" where
  "RooRealVar_range n t l h heap =
     (length heap, heap @ [\<lparr>name = n, title = t, val = (l + h) / 2, err = - 1, lo = l, hi = h\<rparr>])"

text \<open>The values a variable may take: its declared range, both ends included.\<close>

definition admits :: "roorealvar \<Rightarrow> real \<Rightarrow> bool" where
  "admits v x = (lo v \<le> x \<and> x \<le> hi v)"

text \<open>
  Probability densities refer to their observable and parameters by address; an
  \<^verbatim>\<open>RooAddPdf\<close> has a list of components and a list of coefficients.
\<close>

datatype pdf =
    RooJohnson string string addr addr addr addr addr
  | RooBifurGauss string string addr addr addr addr
  | RooGaussian string string addr addr addr
  | RooExponential string string addr addr
  | RooAddPdf string string "pdf list" "addr list"

fun components :: "pdf \<Rightarrow> pdf list" where
  "components (RooAddPdf n t ps cs) = ps"
| "components p = []"

fun coefficients :: "pdf \<Rightarrow> addr list" where
  "coefficients (RooAddPdf n t ps cs) = cs"
| "coefficients p = []"

section \<open>\<^verbatim>\<open>fit_global_model7.py\<close>: declarations (lines 209 to 256)\<close>

record decls =
  heap :: "roorealvar list"
  D0_M :: addr
  Jmu :: addr
  Jlam :: addr
  Jgam :: addr
  Jdel :: addr
  Johnson :: pdf
  sigmaL :: addr
  sigmaR :: addr
  bifurgauss :: pdf
  mean :: addr
  sigma :: addr
  gaussian :: pdf
  a0 :: addr
  background :: pdf
  frac_D0_down :: addr
  frac_D0_down_2 :: addr
  frac_D0_up :: addr
  frac_D0_up_2 :: addr
  frac_D0bar_down :: addr
  frac_D0bar_down_2 :: addr
  frac_D0bar_up :: addr
  frac_D0bar_up_2 :: addr
  Nsig_D0_up :: addr
  Nsig_D0bar_up :: addr
  Nbkg_D0_up :: addr
  Nbkg_D0bar_up :: addr
  Nsig_D0_down :: addr
  Nsig_D0bar_down :: addr
  Nbkg_D0_down :: addr
  Nbkg_D0bar_down :: addr

text \<open>
  The statements in the order of the script. A \<open>let\<close> that binds a name again shadows the
  earlier binding, as the second assignment to \<^verbatim>\<open>mean\<close> does in Python; the record keeps
  the binding each variable has at the end.
\<close>

definition declarations :: "(string \<Rightarrow> nat) \<Rightarrow> chains \<Rightarrow> decls" where
  "declarations entries cs =
     (let heap = [];
          (D0_M, heap) = RooRealVar_range ''D0_MM'' ''D0 mass / [MeV/c*c]'' 1815 1910 heap;
          (Jmu, heap) = RooRealVar ''Jmu'' ''Jmu'' 1865 1863 1867 heap;
          (Jlam, heap) = RooRealVar ''Jlam'' ''Jlam'' 18.7 10 20 heap;
          (Jgam, heap) = RooRealVar ''Jgam'' ''Jgam'' 0.45 0 10 heap;
          (Jdel, heap) = RooRealVar ''Jdel'' ''Jdel'' 2.12 0 10 heap;
          Johnson = RooJohnson ''Johnson'' ''Johnson'' D0_M Jmu Jlam Jgam Jdel;
          (mean, heap) = RooRealVar ''mean'' ''mean'' 1865 1850 1880 heap;
          (sigmaL, heap) = RooRealVar ''sigmaL'' ''sigmaL'' 5.23 0 10 heap;
          (sigmaR, heap) = RooRealVar ''sigmaR'' ''sigmaR'' 6.8 0 10 heap;
          bifurgauss = RooBifurGauss ''Bifurgauss'' ''Bifurgauss'' D0_M mean sigmaL sigmaR;
          (mean, heap) = RooRealVar ''mean'' ''mean'' 1865 1850 1880 heap;
          (sigma, heap) = RooRealVar ''sigma'' ''sigma'' 6.57 0 20 heap;
          gaussian = RooGaussian ''gauss'' ''gauss'' D0_M mean sigma;
          (a0, heap) = RooRealVar ''a0'' ''a0'' (- 0.009) (- 1) 0 heap;
          background = RooExponential ''exponential'' ''exponential'' D0_M a0;
          (frac_D0_down, heap) = RooRealVar ''frac_D0_down'' ''frac_D0_down'' 0.18 0.1 1 heap;
          (frac_D0_down_2, heap) = RooRealVar ''frac_D0_down_2'' ''frac_D0_down_2'' 0.40 0 1 heap;
          (frac_D0_up, heap) = RooRealVar ''frac_D0_up'' ''frac_D0_up'' 0.21 0.1 1 heap;
          (frac_D0_up_2, heap) = RooRealVar ''frac_D0_up_2'' ''frac_D0_up_2'' 0.36 0 1 heap;
          (frac_D0bar_down, heap) = RooRealVar ''frac_D0bar_down'' ''frac_D0bar_down'' 0.18 0.1 1 heap;
          (frac_D0bar_down_2, heap) = RooRealVar ''frac_D0bar_down_2'' ''frac_D0bar_down_2'' 0.40 0 1 heap;
          (frac_D0bar_up, heap) = RooRealVar ''frac_D0bar_up'' ''frac_D0bar_up'' 0.23 0.1 1 heap;
          (frac_D0bar_up_2, heap) = RooRealVar ''frac_D0bar_up_2'' ''frac_D0bar_up_2'' 0.37 0 1 heap;
          (Nsig_D0_up, heap) = RooRealVar ''Nsig_D0_up'' ''Nsig_D0_up''
              (0.95 * real (GetEntries entries (ttree_D0_up cs))) 0 (real (GetEntries entries (ttree_D0_up cs))) heap;
          (Nsig_D0bar_up, heap) = RooRealVar ''Nsig_D0bar_up'' ''Nsig_D0bar_up''
              (0.95 * real (GetEntries entries (ttree_D0bar_up cs))) 0 (real (GetEntries entries (ttree_D0bar_up cs))) heap;
          (Nbkg_D0_up, heap) = RooRealVar ''Nbkg_D0_up'' ''Nbkg_D0_up''
              (0.05 * real (GetEntries entries (ttree_D0_up cs))) 0 (real (GetEntries entries (ttree_D0_up cs))) heap;
          (Nbkg_D0bar_up, heap) = RooRealVar ''Nbkg_D0bar_up'' ''Nbkg_D0bar_up''
              (0.05 * real (GetEntries entries (ttree_D0bar_up cs))) 0 (real (GetEntries entries (ttree_D0bar_up cs))) heap;
          (Nsig_D0_down, heap) = RooRealVar ''Nsig_D0_down'' ''Nsig_D0_down''
              (0.95 * real (GetEntries entries (ttree_D0_down cs))) 0 (real (GetEntries entries (ttree_D0_down cs))) heap;
          (Nsig_D0bar_down, heap) = RooRealVar ''Nsig_D0bar_down'' ''Nsig_D0bar_down''
              (0.95 * real (GetEntries entries (ttree_D0bar_down cs))) 0 (real (GetEntries entries (ttree_D0bar_down cs))) heap;
          (Nbkg_D0_down, heap) = RooRealVar ''Nbkg_D0_down'' ''Nbkg_D0_down''
              (0.05 * real (GetEntries entries (ttree_D0_down cs))) 0 (real (GetEntries entries (ttree_D0_down cs))) heap;
          (Nbkg_D0bar_down, heap) = RooRealVar ''Nbkg_D0bar_down'' ''Nbkg_D0bar_down''
              (0.05 * real (GetEntries entries (ttree_D0bar_down cs))) 0 (real (GetEntries entries (ttree_D0bar_down cs))) heap
      in \<lparr>heap = heap, D0_M = D0_M, Jmu = Jmu, Jlam = Jlam, Jgam = Jgam, Jdel = Jdel, Johnson = Johnson,
          sigmaL = sigmaL, sigmaR = sigmaR, bifurgauss = bifurgauss, mean = mean, sigma = sigma,
          gaussian = gaussian, a0 = a0, background = background,
          frac_D0_down = frac_D0_down, frac_D0_down_2 = frac_D0_down_2,
          frac_D0_up = frac_D0_up, frac_D0_up_2 = frac_D0_up_2,
          frac_D0bar_down = frac_D0bar_down, frac_D0bar_down_2 = frac_D0bar_down_2,
          frac_D0bar_up = frac_D0bar_up, frac_D0bar_up_2 = frac_D0bar_up_2,
          Nsig_D0_up = Nsig_D0_up, Nsig_D0bar_up = Nsig_D0bar_up,
          Nbkg_D0_up = Nbkg_D0_up, Nbkg_D0bar_up = Nbkg_D0bar_up,
          Nsig_D0_down = Nsig_D0_down, Nsig_D0bar_down = Nsig_D0bar_down,
          Nbkg_D0_down = Nbkg_D0_down, Nbkg_D0bar_down = Nbkg_D0bar_down\<rparr>)"

section \<open>\<^verbatim>\<open>fit_global_model7.py\<close>: the binned block (lines 259 to 320)\<close>

definition numbins :: nat where
  "numbins = 300"

definition lower_boundary :: int where
  "lower_boundary = 1815"

definition upper_boundary :: int where
  "upper_boundary = 1910"

text \<open>
  \<^verbatim>\<open>chain.Draw("D0_MM>>H(n,lo,up)")\<close> followed by \<^verbatim>\<open>gPad.GetPrimitive("H")\<close>: the histogram
  named \<open>H\<close> with \<open>n\<close> bins over \<open>lo..up\<close>, filled from the chain.
\<close>

record th1 =
  h_name :: string
  h_bins :: nat
  h_low :: int
  h_up :: int
  h_source :: tchain

definition Draw :: "tchain \<Rightarrow> string \<Rightarrow> nat \<Rightarrow> int \<Rightarrow> int \<Rightarrow> th1" where
  "Draw c n b l u = \<lparr>h_name = n, h_bins = b, h_low = l, h_up = u, h_source = c\<rparr>"

record roodatahist =
  dh_name :: string
  dh_title :: string
  dh_vars :: "addr list"
  dh_hist :: th1

definition RooDataHist :: "string \<Rightarrow> string \<Rightarrow> addr list \<Rightarrow> th1 \<Rightarrow> roodatahist" where
  "RooDataHist n t vs h = \<lparr>dh_name = n, dh_title = t, dh_vars = vs, dh_hist = h\<rparr>"

text \<open>
  A \<^verbatim>\<open>RooCategory\<close> is the list of its type labels; \<^verbatim>\<open>defineType\<close> adds a label that is
  not there yet. A \<^verbatim>\<open>RooSimultaneous\<close> is the list of (label, model) pairs added to it.
\<close>

definition defineType :: "string \<Rightarrow> string list \<Rightarrow> string list" where
  "defineType l types = (if l \<in> set types then types else types @ [l])"

definition addPdf :: "pdf \<Rightarrow> string \<Rightarrow> (string \<times> pdf) list \<Rightarrow> (string \<times> pdf) list" where
  "addPdf m l pdfs = pdfs @ [(l, m)]"

text \<open>
  The combined data set: \<^verbatim>\<open>RooDataHist(name, title, vars, Index(category), *imports)\<close>,
  with the category it is indexed by and the (label, data set) pairs imported.
\<close>

record simdata =
  sd_name :: string
  sd_title :: string
  sd_vars :: "addr list"
  sd_index :: "string list"
  sd_imports :: "(string \<times> roodatahist) list"

text \<open>
  The fit itself is done by the library: \<open>fitTo\<close> is a parameter, any function from the
  joint model, the data and the store to a value and an error for every object of the
  store. \<open>fit_update\<close> writes them into the store; names and ranges stay.
\<close>

type_synonym fit_fn =
  "(string \<times> pdf) list \<Rightarrow> simdata \<Rightarrow> roorealvar list \<Rightarrow> addr \<Rightarrow> real \<times> real"

definition fit_update :: "(addr \<Rightarrow> real \<times> real) \<Rightarrow> roorealvar list \<Rightarrow> roorealvar list" where
  "fit_update r h = map (\<lambda>(i, v). v\<lparr>val := fst (r i), err := snd (r i)\<rparr>) (zip [0..<length h] h)"

record binned =
  binned_sample :: "string list"
  simultaneous_pdf :: "(string \<times> pdf) list"
  signal_D0_up :: pdf
  model_D0_up :: pdf
  signal_D0_down :: pdf
  model_D0_down :: pdf
  signal_D0bar_up :: pdf
  model_D0bar_up :: pdf
  signal_D0bar_down :: pdf
  model_D0bar_down :: pdf
  imports' :: "(string \<times> roodatahist) list"
  simultaneous_data :: simdata
  fitResult :: "addr \<Rightarrow> real \<times> real"
  fitted :: "roorealvar list"

definition binned_block :: "fit_fn \<Rightarrow> chains \<Rightarrow> decls \<Rightarrow> binned" where
  "binned_block fitTo cs d =
     (let D0_Up_Hist = Draw (ttree_D0_up cs) ''D0_Up_Hist'' numbins lower_boundary upper_boundary;
          D0_Down_Hist = Draw (ttree_D0_down cs) ''D0_Down_Hist'' numbins lower_boundary upper_boundary;
          D0bar_Up_Hist = Draw (ttree_D0bar_up cs) ''D0bar_Up_Hist'' numbins lower_boundary upper_boundary;
          D0bar_Down_Hist = Draw (ttree_D0bar_down cs) ''D0bar_Down_Hist'' numbins lower_boundary upper_boundary;
          Binned_D0_up = RooDataHist ''Binned_D0_up'' ''Binned D0 Up Data'' [D0_M d] D0_Up_Hist;
          Binned_D0_down = RooDataHist ''Binned_D0_down'' ''Binned D0 Down Data'' [D0_M d] D0_Down_Hist;
          Binned_D0bar_up = RooDataHist ''Binned_D0bar_up'' ''Binned D0bar Up Data'' [D0_M d] D0bar_Up_Hist;
          Binned_D0bar_down = RooDataHist ''Binned_D0bar_down'' ''Binned D0bar Down Data'' [D0_M d] D0bar_Down_Hist;
          binned_sample = [];
          simultaneous_pdf = [];
          binned_sample = defineType ''Binned_D0_up_sample'' binned_sample;
          signal_D0_up = RooAddPdf ''signal_D0_up'' ''signal D0 up''
              [bifurgauss d, gaussian d, Johnson d] [frac_D0_up d, frac_D0_up_2 d];
          model_D0_up = RooAddPdf ''model_D0_up'' ''model D0 up''
              [signal_D0_up, background d] [Nsig_D0_up d, Nbkg_D0_up d];
          simultaneous_pdf = addPdf model_D0_up ''Binned_D0_up_sample'' simultaneous_pdf;
          binned_sample = defineType ''Binned_D0_down_sample'' binned_sample;
          signal_D0_down = RooAddPdf ''signal_D0_down'' ''signal D0 down''
              [bifurgauss d, gaussian d, Johnson d] [frac_D0_down d, frac_D0_down_2 d];
          model_D0_down = RooAddPdf ''model_D0_down'' ''model D0 down''
              [signal_D0_down, background d] [Nsig_D0_down d, Nbkg_D0_down d];
          simultaneous_pdf = addPdf model_D0_down ''Binned_D0_down_sample'' simultaneous_pdf;
          binned_sample = defineType ''Binned_D0bar_up_sample'' binned_sample;
          signal_D0bar_up = RooAddPdf ''signal_D0bar_up'' ''signal D0bar up''
              [bifurgauss d, gaussian d, Johnson d] [frac_D0bar_up d, frac_D0bar_up_2 d];
          model_D0bar_up = RooAddPdf ''model_D0bar_up'' ''model D0bar up''
              [signal_D0bar_up, background d] [Nsig_D0bar_up d, Nbkg_D0bar_up d];
          simultaneous_pdf = addPdf model_D0bar_up ''Binned_D0bar_up_sample'' simultaneous_pdf;
          binned_sample = defineType ''Binned_D0bar_down_sample'' binned_sample;
          signal_D0bar_down = RooAddPdf ''signal_D0bar_down'' ''signal D0bar down''
              [bifurgauss d, gaussian d, Johnson d] [frac_D0bar_down d, frac_D0bar_down_2 d];
          model_D0bar_down = RooAddPdf ''model_D0bar_down'' ''model D0bar down''
              [signal_D0bar_down, background d] [Nsig_D0bar_down d, Nbkg_D0bar_down d];
          simultaneous_pdf = addPdf model_D0bar_down ''Binned_D0bar_down_sample'' simultaneous_pdf;
          imports = [(''Binned_D0_up_sample'', Binned_D0_up), (''Binned_D0bar_up_sample'', Binned_D0bar_up),
                     (''Binned_D0_down_sample'', Binned_D0_down), (''Binned_D0bar_down_sample'', Binned_D0bar_down)];
          simultaneous_data = \<lparr>sd_name = ''simultaneous_data'', sd_title = ''simultaneous data'',
              sd_vars = [D0_M d], sd_index = binned_sample, sd_imports = imports\<rparr>;
          fitResult = fitTo simultaneous_pdf simultaneous_data (heap d)
      in \<lparr>binned_sample = binned_sample, simultaneous_pdf = simultaneous_pdf,
          signal_D0_up = signal_D0_up, model_D0_up = model_D0_up,
          signal_D0_down = signal_D0_down, model_D0_down = model_D0_down,
          signal_D0bar_up = signal_D0bar_up, model_D0bar_up = model_D0bar_up,
          signal_D0bar_down = signal_D0bar_down, model_D0bar_down = model_D0bar_down,
          imports' = imports, simultaneous_data = simultaneous_data,
          fitResult = fitResult, fitted = fit_update fitResult (heap d)\<rparr>)"

section \<open>\<^verbatim>\<open>fit_global_model7.py\<close>: the export (lines 329 to 343) and the whole script\<close>

definition variables :: "decls \<Rightarrow> addr list" where
  "variables d =
     [a0 d, frac_D0_down d, frac_D0_down_2 d, frac_D0_up d, frac_D0_up_2 d,
      frac_D0bar_down d, frac_D0bar_down_2 d, frac_D0bar_up d, frac_D0bar_up_2 d,
      Nsig_D0_down d, Nbkg_D0_down d, Nsig_D0_up d, Nbkg_D0_up d,
      Nsig_D0bar_down d, Nbkg_D0bar_down d, Nsig_D0bar_up d, Nbkg_D0bar_up d,
      sigmaL d, sigmaR d, Jmu d, Jlam d, Jgam d, Jdel d, mean d, sigma d]"

text \<open>
  A Python \<^verbatim>\<open>dict\<close> keeps its keys in the order of their first insertion; storing under a
  key that is there replaces the value in place.
\<close>

fun dict_set :: "('k \<times> 'v) list \<Rightarrow> 'k \<Rightarrow> 'v \<Rightarrow> ('k \<times> 'v) list" where
  "dict_set [] k v = [(k, v)]"
| "dict_set ((k', v') # d) k v = (if k' = k then (k, v) # d else (k', v') # dict_set d k v)"

definition dict_of :: "('k \<times> 'v) list \<Rightarrow> ('k \<times> 'v) list" where
  "dict_of ps = foldl (\<lambda>d (k, v). dict_set d k v) [] ps"

definition startswith :: "string \<Rightarrow> string \<Rightarrow> bool" where
  "startswith s p = (take (length p) s = p)"

definition newline :: char where
  "newline = CHR 0x0A"

text \<open>
  The strings written to the file, one per call of \<^verbatim>\<open>file.write\<close>. \<open>fmt\<close> is Python's
  conversion of a float to text in an f-string, a parameter.
\<close>

definition export_writes :: "(real \<Rightarrow> string) \<Rightarrow> roorealvar list \<Rightarrow> addr list \<Rightarrow> string list" where
  "export_writes fmt h vars =
     (let values = map (\<lambda>var. val (h ! var)) vars;
          errors = map (\<lambda>var. err (h ! var)) vars;
          names = map (\<lambda>var. name (h ! var)) vars;
          parameters_dict = dict_of (zip names values)
      in map (\<lambda>(key, value). key @ '': '' @ fmt value @ [newline]) parameters_dict
         @ map (\<lambda>(name, error). name @ ''_error: '' @ fmt error @ [newline])
             (filter (\<lambda>(name, error). startswith name ''Nsig_'') (zip names errors)))"

text \<open>
  The script from the command-line arguments to the file it writes (name and content).
  \<^verbatim>\<open>fitResult\<close> is assigned in the binned block only; \<^verbatim>\<open>fitResult.Print()\<close> comes after it.
\<close>

definition main ::
  "fit_fn \<Rightarrow> (string \<Rightarrow> nat) \<Rightarrow> (real \<Rightarrow> string) \<Rightarrow> args \<Rightarrow> py_error + string \<times> string" where
  "main fitTo entries fmt a =
     (let binned = (binned_fit a = ''y'' \<or> binned_fit a = ''Y'');
          cs = load_data a;
          d = declarations entries cs;
          b = (if binned then Some (binned_block fitTo cs d) else None)
      in case b of
           None \<Rightarrow> Inl (NameError ''fitResult'')
         | Some b \<Rightarrow>
             Inr (path a @ ''/fit_parameters.txt'', concat (export_writes fmt (fitted b) (variables d))))"

section \<open>\<^verbatim>\<open>fit_global.py\<close>\<close>

text \<open>
  The second script fits two categories (\<open>D0\<close> and \<open>D0bar\<close>). Its variables carry the prefix
  \<open>fg_\<close> here. \<^verbatim>\<open>--size\<close> is a string in this script. The chains are assigned only when the
  year is 19, and which ones depends on the scheme, so each is optional.
\<close>

record fg_args =
  fg_year :: int
  fg_size :: string
  fg_path :: string
  fg_binned_fit :: string
  fg_input :: string
  fg_scheme :: string
  fg_bin :: "string option"

record fg_chains =
  fg_ttree_D0 :: "tchain option"
  fg_ttree_D0bar :: "tchain option"
  fg_ttree_D0bar_up :: "tchain option"

definition fg_total_file :: "fg_args \<Rightarrow> string \<Rightarrow> string \<Rightarrow> string \<Rightarrow> string" where
  "fg_total_file a meson pol yr =
     fg_input a @ ''/'' @ meson @ ''_'' @ pol @ ''_data_'' @ yr @ ''_'' @ fg_size a @ ''_clean.root''"

definition fg_bin_file :: "fg_args \<Rightarrow> string \<Rightarrow> string" where
  "fg_bin_file a meson =
     fg_input a @ ''/'' @ meson @ ''_'' @ str_int (fg_year a) @ ''_'' @ fg_size a
       @ ''_bin'' @ str_opt (fg_bin a) @ ''.root''"

definition fg_load :: "fg_args \<Rightarrow> fg_chains" where
  "fg_load a =
     (if fg_year a = 19 then
        (if fg_scheme a = ''total'' then
           \<lparr>fg_ttree_D0 = Some (select_D0_MM (fold Add
                [fg_total_file a ''D0'' ''up'' ''16'', fg_total_file a ''D0'' ''up'' ''17'',
                 fg_total_file a ''D0'' ''up'' ''18'', fg_total_file a ''D0'' ''down'' ''16'',
                 fg_total_file a ''D0'' ''down'' ''17'', fg_total_file a ''D0'' ''down'' ''18'']
                (TChain ''D02Kpi_Tuple/DecayTree''))),
            fg_ttree_D0bar = Some (select_D0_MM (fold Add
                [fg_total_file a ''D0bar'' ''up'' ''16'', fg_total_file a ''D0bar'' ''up'' ''17'',
                 fg_total_file a ''D0bar'' ''up'' ''18'', fg_total_file a ''D0bar'' ''down'' ''16'',
                 fg_total_file a ''D0bar'' ''down'' ''17'', fg_total_file a ''D0bar'' ''down'' ''18'']
                (TChain ''D02Kpi_Tuple/DecayTree''))),
            fg_ttree_D0bar_up = None\<rparr>
         else
           \<lparr>fg_ttree_D0 = Some (select_D0_MM (Add (fg_bin_file a ''D0'') (TChain ''D02Kpi_Tuple/DecayTree''))),
            fg_ttree_D0bar = None,
            fg_ttree_D0bar_up =
              Some (select_D0_MM (Add (fg_bin_file a ''D0bar'') (TChain ''D02Kpi_Tuple/DecayTree'')))\<rparr>)
      else \<lparr>fg_ttree_D0 = None, fg_ttree_D0bar = None, fg_ttree_D0bar_up = None\<rparr>)"

record fg_decls =
  fg_heap :: "roorealvar list"
  fg_D0_M :: addr
  fg_Jmu :: addr
  fg_Jlam :: addr
  fg_Jgam :: addr
  fg_Jdel :: addr
  fg_Johnson :: pdf
  fg_bifurmean :: addr
  fg_sigmaL :: addr
  fg_sigmaR :: addr
  fg_bifurgauss :: pdf
  fg_bifurmean2 :: addr
  fg_sigmaL2 :: addr
  fg_sigmaR2 :: addr
  fg_bifurgauss2 :: pdf
  fg_a0 :: addr
  fg_background :: pdf
  fg_frac_D0 :: addr
  fg_frac_D0_2 :: addr
  fg_frac_D0bar :: addr
  fg_frac_D0bar_2 :: addr
  fg_Nsig_D0 :: addr
  fg_Nsig_D0bar :: addr
  fg_Nbkg_D0 :: addr
  fg_Nbkg_D0bar :: addr

text \<open>Lines 138 to 176, given the two chains that lines 173 to 176 read.\<close>

definition fg_declarations :: "(string \<Rightarrow> nat) \<Rightarrow> tchain \<Rightarrow> tchain \<Rightarrow> fg_decls" where
  "fg_declarations entries ttree_D0 ttree_D0bar =
     (let heap = [];
          (D0_M, heap) = RooRealVar_range ''D0_MM'' ''D0 mass / [MeV/c*c]'' 1815 1910 heap;
          (Jmu, heap) = RooRealVar ''Jmu'' ''Jmu'' 1865 1860 1870 heap;
          (Jlam, heap) = RooRealVar ''Jlam'' ''Jlam'' 16.3 10 20 heap;
          (Jgam, heap) = RooRealVar ''Jgam'' ''Jgam'' 0.3 0 10 heap;
          (Jdel, heap) = RooRealVar ''Jdel'' ''Jdel'' 1.6 0 10 heap;
          Johnson = RooJohnson ''Johnson'' ''Johnson'' D0_M Jmu Jlam Jgam Jdel;
          (bifurmean, heap) = RooRealVar ''bifurmean'' ''bifurmean'' 1865.2 1860 1870 heap;
          (sigmaL, heap) = RooRealVar ''sigmaL'' ''sigmaL'' 8.24 0 10 heap;
          (sigmaR, heap) = RooRealVar ''sigmaR'' ''sigmaR'' 6.1 0 10 heap;
          bifurgauss = RooBifurGauss ''Bifurgauss'' ''Bifurgauss'' D0_M bifurmean sigmaL sigmaR;
          (bifurmean2, heap) = RooRealVar ''bifurmean2'' ''bifurmean2'' 1865.5 1860 1870 heap;
          (sigmaL2, heap) = RooRealVar ''sigmaL2'' ''sigmaL2'' 6 0 10 heap;
          (sigmaR2, heap) = RooRealVar ''sigmaR2'' ''sigmaR2'' 8.49 0 10 heap;
          bifurgauss2 = RooBifurGauss ''Bifurgaussian2'' ''Bifurgaussian2'' D0_M bifurmean2 sigmaL2 sigmaR2;
          (a0, heap) = RooRealVar ''a0'' ''a0'' (- 0.009) (- 1) 0 heap;
          background = RooExponential ''exponential'' ''exponential'' D0_M a0;
          (frac_D0, heap) = RooRealVar ''frac_D0'' ''frac_D0'' 0.16 0 1 heap;
          (frac_D0_2, heap) = RooRealVar ''frac_D0_2'' ''frac_D0_2'' 0.4 0 1 heap;
          (frac_D0bar, heap) = RooRealVar ''frac_D0bar'' ''frac_D0bar'' 0.3 0 1 heap;
          (frac_D0bar_2, heap) = RooRealVar ''frac_D0bar_2'' ''frac_D0bar_2'' 0.6 0 1 heap;
          (Nsig_D0, heap) = RooRealVar ''Nsig_D0'' ''Nsig_D0''
              (0.95 * real (GetEntries entries ttree_D0)) 0 (real (GetEntries entries ttree_D0)) heap;
          (Nsig_D0bar, heap) = RooRealVar ''Nsig_D0bar'' ''Nsig_D0bar''
              (0.95 * real (GetEntries entries ttree_D0bar)) 0 (real (GetEntries entries ttree_D0bar)) heap;
          (Nbkg_D0, heap) = RooRealVar ''Nbkg_D0'' ''Nbkg_D0''
              (0.05 * real (GetEntries entries ttree_D0)) 0 (real (GetEntries entries ttree_D0)) heap;
          (Nbkg_D0bar, heap) = RooRealVar ''Nbkg_D0bar'' ''Nbkg_D0bar''
              (0.05 * real (GetEntries entries ttree_D0bar)) 0 (real (GetEntries entries ttree_D0bar)) heap
      in \<lparr>fg_heap = heap, fg_D0_M = D0_M, fg_Jmu = Jmu, fg_Jlam = Jlam, fg_Jgam = Jgam, fg_Jdel = Jdel,
          fg_Johnson = Johnson, fg_bifurmean = bifurmean, fg_sigmaL = sigmaL, fg_sigmaR = sigmaR,
          fg_bifurgauss = bifurgauss, fg_bifurmean2 = bifurmean2, fg_sigmaL2 = sigmaL2,
          fg_sigmaR2 = sigmaR2, fg_bifurgauss2 = bifurgauss2, fg_a0 = a0, fg_background = background,
          fg_frac_D0 = frac_D0, fg_frac_D0_2 = frac_D0_2, fg_frac_D0bar = frac_D0bar,
          fg_frac_D0bar_2 = frac_D0bar_2, fg_Nsig_D0 = Nsig_D0, fg_Nsig_D0bar = Nsig_D0bar,
          fg_Nbkg_D0 = Nbkg_D0, fg_Nbkg_D0bar = Nbkg_D0bar\<rparr>)"

definition fg_numbins :: nat where
  "fg_numbins = 240"

record fg_binned =
  fg_binned_sample :: "string list"
  fg_simultaneous_pdf :: "(string \<times> pdf) list"
  fg_signal_D0 :: pdf
  fg_model_D0 :: pdf
  fg_signal_D0bar :: pdf
  fg_model_D0bar :: pdf
  fg_imports :: "(string \<times> roodatahist) list"
  fg_simultaneous_data :: simdata
  fg_fitResult :: "addr \<Rightarrow> real \<times> real"
  fg_fitted :: "roorealvar list"

text \<open>The binned block of \<^verbatim>\<open>fit_global.py\<close> (lines 178 to 214).\<close>

definition fg_binned_block :: "fit_fn \<Rightarrow> tchain \<Rightarrow> tchain \<Rightarrow> fg_decls \<Rightarrow> fg_binned" where
  "fg_binned_block fitTo ttree_D0 ttree_D0bar d =
     (let D0_Hist = Draw ttree_D0 ''D0_Hist'' fg_numbins lower_boundary upper_boundary;
          D0bar_Hist = Draw ttree_D0bar ''D0bar_Hist'' fg_numbins lower_boundary upper_boundary;
          Binned_D0 = RooDataHist ''Binned_D0'' ''Binned D0 Data'' [fg_D0_M d] D0_Hist;
          Binned_D0bar = RooDataHist ''Binned_D0bar'' ''Binned D0bar Data'' [fg_D0_M d] D0bar_Hist;
          binned_sample = [];
          simultaneous_pdf = [];
          binned_sample = defineType ''Binned_D0_sample'' binned_sample;
          signal_D0 = RooAddPdf ''signal_D0'' ''signal D0''
              [fg_Johnson d, fg_bifurgauss d, fg_bifurgauss2 d] [fg_frac_D0 d, fg_frac_D0_2 d];
          model_D0 = RooAddPdf ''model_D0'' ''model D0''
              [signal_D0, fg_background d] [fg_Nsig_D0 d, fg_Nbkg_D0 d];
          simultaneous_pdf = addPdf model_D0 ''Binned_D0_sample'' simultaneous_pdf;
          binned_sample = defineType ''Binned_D0bar_sample'' binned_sample;
          signal_D0bar = RooAddPdf ''signal_D0bar'' ''signal D0bar''
              [fg_Johnson d, fg_bifurgauss d, fg_bifurgauss2 d] [fg_frac_D0bar d, fg_frac_D0bar_2 d];
          model_D0bar = RooAddPdf ''model_D0bar'' ''model D0bar''
              [signal_D0bar, fg_background d] [fg_Nsig_D0bar d, fg_Nbkg_D0bar d];
          simultaneous_pdf = addPdf model_D0bar ''Binned_D0bar_sample'' simultaneous_pdf;
          imports = [(''Binned_D0_sample'', Binned_D0), (''Binned_D0bar'', Binned_D0bar)];
          simultaneous_data = \<lparr>sd_name = ''simultaneous_data'', sd_title = ''simultaneous data'',
              sd_vars = [fg_D0_M d], sd_index = binned_sample, sd_imports = imports\<rparr>;
          fitResult = fitTo simultaneous_pdf simultaneous_data (fg_heap d)
      in \<lparr>fg_binned_sample = binned_sample, fg_simultaneous_pdf = simultaneous_pdf,
          fg_signal_D0 = signal_D0, fg_model_D0 = model_D0,
          fg_signal_D0bar = signal_D0bar, fg_model_D0bar = model_D0bar,
          fg_imports = imports, fg_simultaneous_data = simultaneous_data,
          fg_fitResult = fitResult, fg_fitted = fit_update fitResult (fg_heap d)\<rparr>)"

text \<open>The array \<^verbatim>\<open>parameters\<close> of line 221: nineteen values and two errors.\<close>

definition fg_parameters :: "roorealvar list \<Rightarrow> fg_decls \<Rightarrow> real list" where
  "fg_parameters h d =
     map (\<lambda>var. val (h ! var))
       [fg_a0 d, fg_frac_D0 d, fg_frac_D0_2 d, fg_frac_D0bar d, fg_frac_D0bar_2 d,
        fg_Nsig_D0 d, fg_Nbkg_D0 d, fg_Nsig_D0bar d, fg_Nbkg_D0bar d,
        fg_sigmaL d, fg_sigmaR d, fg_sigmaL2 d, fg_sigmaR2 d,
        fg_Jmu d, fg_Jlam d, fg_Jgam d, fg_Jdel d, fg_bifurmean d, fg_bifurmean2 d]
     @ map (\<lambda>var. err (h ! var)) [fg_Nsig_D0 d, fg_Nsig_D0bar d]"

text \<open>
  The script as a whole. A variable that was never assigned raises \<^verbatim>\<open>NameError\<close> where it
  is first read: \<^verbatim>\<open>ttree_D0\<close> on line 173, \<^verbatim>\<open>ttree_D0bar\<close> on line 174, \<^verbatim>\<open>fitResult\<close> on
  line 216 and \<^verbatim>\<open>parameters\<close> on line 224. \<^verbatim>\<open>np.savetxt\<close> writes one number per line;
  \<open>fmt_e\<close> is its number format, a parameter.
\<close>

definition fg_main ::
  "fit_fn \<Rightarrow> (string \<Rightarrow> nat) \<Rightarrow> (real \<Rightarrow> string) \<Rightarrow> fg_args \<Rightarrow> py_error + string \<times> string" where
  "fg_main fitTo entries fmt_e a =
     (let binned = (fg_binned_fit a = ''y'' \<or> fg_binned_fit a = ''Y'');
          cs = fg_load a
      in case fg_ttree_D0 cs of
           None \<Rightarrow> Inl (NameError ''ttree_D0'')
         | Some ttree_D0 \<Rightarrow>
             (case fg_ttree_D0bar cs of
                None \<Rightarrow> Inl (NameError ''ttree_D0bar'')
              | Some ttree_D0bar \<Rightarrow>
                  (let d = fg_declarations entries ttree_D0 ttree_D0bar in
                   if binned then
                     (let b = fg_binned_block fitTo ttree_D0 ttree_D0bar d;
                          parameters =
                            (if fg_year a = 19 then
                               (if fg_scheme a = ''total'' then Some (fg_parameters (fg_fitted b) d) else None)
                             else None)
                      in case parameters of
                           None \<Rightarrow> Inl (NameError ''parameters'')
                         | Some ps \<Rightarrow>
                             Inr (fg_path a @ ''/fit_parameters.txt'',
                                  concat (map (\<lambda>x. fmt_e x @ [newline]) ps)))
                   else Inl (NameError ''fitResult''))))"

section \<open>Reading the exported file back\<close>







text \<open>
  The name-to-value pairs the export presents: every exported variable under its name, and
  the error of a signal yield under its name followed by \<^verbatim>\<open>_error\<close>.
\<close>

definition exported_pairs :: "roorealvar list \<Rightarrow> addr list \<Rightarrow> (string \<times> real) list" where
  "exported_pairs h vars =
     map (\<lambda>v. (name (h ! v), val (h ! v))) vars
     @ map (\<lambda>v. (name (h ! v) @ ''_error'', err (h ! v)))
         (filter (\<lambda>v. startswith (name (h ! v)) ''Nsig_'') vars)"

text \<open>
  The export as the specification words it: one line for every declared parameter (every
  object of the store but the observable), in the order of declaration, then an error line
  for every yield, signal or background.
\<close>

definition spec_export_writes :: "(real \<Rightarrow> string) \<Rightarrow> roorealvar list \<Rightarrow> addr \<Rightarrow> string list" where
  "spec_export_writes fmt h observable =
     (let params = filter (\<lambda>v. v \<noteq> observable) [0..<length h]
      in map (\<lambda>v. name (h ! v) @ '': '' @ fmt (val (h ! v)) @ [newline]) params
         @ map (\<lambda>v. name (h ! v) @ ''_error: '' @ fmt (err (h ! v)) @ [newline])
             (filter (\<lambda>v. startswith (name (h ! v)) ''Nsig_'' \<or> startswith (name (h ! v)) ''Nbkg_'') params))"

text \<open>A variable whose title is its name, for writing stores down.\<close>

definition plain_var :: "string \<Rightarrow> real \<Rightarrow> real \<Rightarrow> real \<Rightarrow> roorealvar" where
  "plain_var n v l h = \<lparr>name = n, title = n, val = v, err = - 1, lo = l, hi = h\<rparr>"

text \<open>The signal mixtures of the two scripts, and the declared range of a variable.\<close>

definition signals :: "binned \<Rightarrow> pdf list" where
  "signals b = [signal_D0_up b, signal_D0_down b, signal_D0bar_up b, signal_D0bar_down b]"

definition fg_signals :: "fg_binned \<Rightarrow> pdf list" where
  "fg_signals b = [fg_signal_D0 b, fg_signal_D0bar b]"

definition range_of :: "roorealvar list \<Rightarrow> addr \<Rightarrow> real \<times> real" where
  "range_of h v = (lo (h ! v), hi (h ! v))"

text \<open>The declarations and the store after the fit, as the script reaches them from its arguments.\<close>

definition model7_decls :: "(string \<Rightarrow> nat) \<Rightarrow> args \<Rightarrow> decls" where
  "model7_decls entries a = declarations entries (load_data a)"

definition model7_store :: "fit_fn \<Rightarrow> (string \<Rightarrow> nat) \<Rightarrow> args \<Rightarrow> roorealvar list" where
  "model7_store fitTo entries a =
     fitted (binned_block fitTo (load_data a) (declarations entries (load_data a)))"

text \<open>The parameters a density refers to, those of its components first.\<close>

fun parameters_of :: "pdf \<Rightarrow> addr list" where
  "parameters_of (RooJohnson n t x mu lam gam del) = [mu, lam, gam, del]"
| "parameters_of (RooBifurGauss n t x m sl sr) = [m, sl, sr]"
| "parameters_of (RooGaussian n t x m s) = [m, s]"
| "parameters_of (RooExponential n t x c) = [c]"
| "parameters_of (RooAddPdf n t ps cs) = concat (map parameters_of ps) @ cs"

section \<open>Properties of the size list and of the data loading\<close>

lemma size_argument_accepted:
  "size_argument v = Inr s \<Longrightarrow> 1 \<le> s \<and> s \<le> 800 \<and> s mod 10 = 0"
  by (auto simp: size_argument_def Let_def split: if_splits)

lemma generate_loop_step:
  "result_list = [] \<or> last result_list < s \<Longrightarrow>
     generate_loop s result_list c = generate_loop s (result_list @ [c]) (c + 10)"
  by (subst generate_loop.simps) simp

lemma generate_loop_stop:
  "result_list \<noteq> [] \<Longrightarrow> \<not> last result_list < s \<Longrightarrow> generate_loop s result_list c = result_list"
  by (subst generate_loop.simps) simp

lemma tens_snoc: "1 \<le> k \<Longrightarrow> tens k @ [10 * (k + 1)] = tens (k + 1)"
  by (simp add: tens_def upto_rec2)

lemma tens_last: "1 \<le> k \<Longrightarrow> tens k \<noteq> [] \<and> last (tens k) = 10 * k"
  by (simp add: tens_def upto_rec2)

lemma generate_loop_tens:
  assumes "1 \<le> k" "k \<le> n"
  shows "generate_loop (10 * n) (tens k) (10 * (k + 1)) = tens n"
  using assms
proof (induction "nat (n - k)" arbitrary: k)
  case 0
  then have "k = n" by simp
  then show ?case
    using tens_last [of n] 0 by (simp add: generate_loop_stop)
next
  case (Suc m)
  then have lt: "k < n" by simp
  have "generate_loop (10 * n) (tens k) (10 * (k + 1))
        = generate_loop (10 * n) (tens k @ [10 * (k + 1)]) (10 * (k + 1) + 10)"
    using tens_last [of k] lt Suc.prems by (intro generate_loop_step) simp
  also have "\<dots> = generate_loop (10 * n) (tens (k + 1)) (10 * ((k + 1) + 1))"
  proof -
    have "tens k @ [10 * (k + 1)] = tens (k + 1)"
      using Suc.prems by (intro tens_snoc) simp
    moreover have "10 * (k + 1) + 10 = 10 * ((k + 1) + 1)"
      by simp
    ultimately show ?thesis
      by (simp only:)
  qed
  also have "\<dots> = tens n"
    using Suc.hyps(2) Suc.prems lt by (intro Suc.hyps(1)) simp_all
  finally show ?case .
qed

lemma generate_list_tens:
  assumes "1 \<le> n"
  shows "generate_list (10 * n) = tens n"
proof -
  have "generate_list (10 * n) = generate_loop (10 * n) ([] @ [10]) (10 + 10)"
    unfolding generate_list_def by (intro generate_loop_step) simp
  also have "\<dots> = generate_loop (10 * n) (tens 1) (10 * (1 + 1))"
    by (simp add: tens_def)
  also have "\<dots> = tens n"
    using assms by (intro generate_loop_tens) simp_all
  finally show ?thesis .
qed

lemma fold_load_step_total:
  assumes "scheme a = ''total''"
  shows "files (ttree_D0_up (fold (load_step a) xs cs))
           = files (ttree_D0_up cs) @ replicate (length xs) (total_file a ''up'' ''D0'')
       \<and> files (ttree_D0_down (fold (load_step a) xs cs))
           = files (ttree_D0_down cs) @ replicate (length xs) (total_file a ''down'' ''D0'')
       \<and> files (ttree_D0bar_up (fold (load_step a) xs cs))
           = files (ttree_D0bar_up cs) @ replicate (length xs) (total_file a ''up'' ''D0bar'')
       \<and> files (ttree_D0bar_down (fold (load_step a) xs cs))
           = files (ttree_D0bar_down cs) @ replicate (length xs) (total_file a ''down'' ''D0bar'')"
proof (induction xs arbitrary: cs)
  case Nil
  show ?case by simp
next
  case (Cons x xs)
  have step: "files (ttree_D0_up (load_step a x cs)) = files (ttree_D0_up cs) @ [total_file a ''up'' ''D0'']"
    "files (ttree_D0_down (load_step a x cs)) = files (ttree_D0_down cs) @ [total_file a ''down'' ''D0'']"
    "files (ttree_D0bar_up (load_step a x cs)) = files (ttree_D0bar_up cs) @ [total_file a ''up'' ''D0bar'']"
    "files (ttree_D0bar_down (load_step a x cs)) = files (ttree_D0bar_down cs) @ [total_file a ''down'' ''D0bar'']"
    using assms by (simp_all add: load_step_def select_D0_MM_def Add_def SetBranchStatus_def)
  show ?case
    using Cons.IH [of "load_step a x cs"] by (simp add: step replicate_app_Cons_same)
qed

lemma GetEntries_replicate:
  "files c = replicate n f \<Longrightarrow> GetEntries e c = n * e f"
  by (simp add: GetEntries_def sum_list_replicate)

lemma load_data_total:
  assumes "1 \<le> size_arg a" "size_arg a mod 10 = 0" "scheme a = ''total''"
  shows "files (ttree_D0_up (load_data a)) = replicate (nat (size_arg a div 10)) (total_file a ''up'' ''D0'')"
    and "files (ttree_D0_down (load_data a)) = replicate (nat (size_arg a div 10)) (total_file a ''down'' ''D0'')"
    and "files (ttree_D0bar_up (load_data a)) = replicate (nat (size_arg a div 10)) (total_file a ''up'' ''D0bar'')"
    and "files (ttree_D0bar_down (load_data a)) = replicate (nat (size_arg a div 10)) (total_file a ''down'' ''D0bar'')"
proof -
  have s: "size_arg a = 10 * (size_arg a div 10)" and n: "1 \<le> size_arg a div 10"
    using assms(1,2) by presburger+
  have gl: "generate_list (size_arg a) = tens (size_arg a div 10)"
    using generate_list_tens [OF n] s by simp
  have len: "length (generate_list (size_arg a)) = nat (size_arg a div 10)"
    by (simp add: gl tens_def)
  have init: "files (ttree_D0_up initial_chains) = []" "files (ttree_D0_down initial_chains) = []"
    "files (ttree_D0bar_up initial_chains) = []" "files (ttree_D0bar_down initial_chains) = []"
    by (simp_all add: initial_chains_def TChain_def)
  note f = fold_load_step_total [OF assms(3), of "generate_list (size_arg a)" initial_chains]
  show "files (ttree_D0_up (load_data a)) = replicate (nat (size_arg a div 10)) (total_file a ''up'' ''D0'')"
    using f by (simp add: load_data_def init len)
  show "files (ttree_D0_down (load_data a)) = replicate (nat (size_arg a div 10)) (total_file a ''down'' ''D0'')"
    using f by (simp add: load_data_def init len)
  show "files (ttree_D0bar_up (load_data a)) = replicate (nat (size_arg a div 10)) (total_file a ''up'' ''D0bar'')"
    using f by (simp add: load_data_def init len)
  show "files (ttree_D0bar_down (load_data a)) = replicate (nat (size_arg a div 10)) (total_file a ''down'' ''D0bar'')"
    using f by (simp add: load_data_def init len)
qed

text \<open>
  Claim C10. For every accepted size \<open>s\<close> (a multiple of 10 with \<open>1 \<le> s \<le> 800\<close>),
  \<open>generate_list s\<close> is the list 10, 20, ..., \<open>s\<close>, of length \<open>s div 10\<close>. In the \<^verbatim>\<open>total\<close>
  scheme the loading loop runs once per element and adds the same four file names every
  time: each chain ends up with \<open>s div 10\<close> copies of its one file, and the number of
  entries the yields are computed from is \<open>s div 10\<close> times the entries of that file.
\<close>

theorem generate_list_repeats_files:
  assumes "1 \<le> size_arg a" "size_arg a \<le> 800" "size_arg a mod 10 = 0" "scheme a = ''total''"
  shows "generate_list (size_arg a) = map (\<lambda>i. 10 * i) [1..size_arg a div 10]
       \<and> length (generate_list (size_arg a)) = nat (size_arg a div 10)
       \<and> files (ttree_D0_up (load_data a)) = replicate (nat (size_arg a div 10)) (total_file a ''up'' ''D0'')
       \<and> files (ttree_D0_down (load_data a)) = replicate (nat (size_arg a div 10)) (total_file a ''down'' ''D0'')
       \<and> files (ttree_D0bar_up (load_data a)) = replicate (nat (size_arg a div 10)) (total_file a ''up'' ''D0bar'')
       \<and> files (ttree_D0bar_down (load_data a)) = replicate (nat (size_arg a div 10)) (total_file a ''down'' ''D0bar'')
       \<and> GetEntries entries (ttree_D0_up (load_data a)) = nat (size_arg a div 10) * entries (total_file a ''up'' ''D0'')
       \<and> GetEntries entries (ttree_D0_down (load_data a)) = nat (size_arg a div 10) * entries (total_file a ''down'' ''D0'')
       \<and> GetEntries entries (ttree_D0bar_up (load_data a)) = nat (size_arg a div 10) * entries (total_file a ''up'' ''D0bar'')
       \<and> GetEntries entries (ttree_D0bar_down (load_data a)) = nat (size_arg a div 10) * entries (total_file a ''down'' ''D0bar'')"
proof -
  have s: "size_arg a = 10 * (size_arg a div 10)" and n: "1 \<le> size_arg a div 10"
    using assms(1,3) by presburger+
  have gl: "generate_list (size_arg a) = map (\<lambda>i. 10 * i) [1..size_arg a div 10]"
    using generate_list_tens [OF n] s by (simp add: tens_def)
  have len: "length (generate_list (size_arg a)) = nat (size_arg a div 10)"
    by (simp add: gl)
  note ld = load_data_total [OF assms(1) assms(3) assms(4)]
  show ?thesis
    using gl len ld ld [THEN GetEntries_replicate, of entries] by simp
qed

theorem generate_list_repeats_files_witness:
  "generate_list 30 = [10, 20, 30]
   \<and> files (ttree_D0_up (load_data
        \<lparr>year = 16, size_arg = 30, path = ''out'', binned_fit = ''y'', input = ''in'',
         scheme = ''total'', bin = None\<rparr>))
     = [''in/2016/up/D0/D0_up_data_16_30_clean.root'', ''in/2016/up/D0/D0_up_data_16_30_clean.root'',
        ''in/2016/up/D0/D0_up_data_16_30_clean.root'']
   \<and> GetEntries (\<lambda>f. 7) (ttree_D0bar_down (load_data
        \<lparr>year = 16, size_arg = 30, path = ''out'', binned_fit = ''y'', input = ''in'',
         scheme = ''total'', bin = None\<rparr>)) = 21"
proof -
  let ?a = "\<lparr>year = 16, size_arg = 30, path = ''out'', binned_fit = ''y'', input = ''in'',
        scheme = ''total'', bin = None\<rparr>"
  have f: "total_file ?a ''up'' ''D0'' = ''in/2016/up/D0/D0_up_data_16_30_clean.root''"
    by code_simp
  have u: "map (\<lambda>i. 10 * i) [1..3] = [10, 20, 30 :: int]"
    by code_simp
  have r: "replicate 3 x = [x, x, x]" for x :: string
    by (simp add: numeral_3_eq_3)
  from generate_list_repeats_files [of ?a "\<lambda>f. 7"]
  have g: "generate_list 30 = map (\<lambda>i. 10 * i) [1..3]"
    and fu: "files (ttree_D0_up (load_data ?a)) = replicate 3 (total_file ?a ''up'' ''D0'')"
    and ge: "GetEntries (\<lambda>f. 7) (ttree_D0bar_down (load_data ?a)) = 21"
    by simp_all
  show ?thesis
    by (simp only: g fu ge f u r simp_thms)
qed

section \<open>The store of \<^verbatim>\<open>fit_global_model7.py\<close>, evaluated\<close>

lemma declarations_eval:
  "declarations e cs =
     \<lparr>heap =
        [\<lparr>name = ''D0_MM'', title = ''D0 mass / [MeV/c*c]'', val = (1815 + 1910) / 2, err = - 1, lo = 1815, hi = 1910\<rparr>,
         plain_var ''Jmu'' 1865 1863 1867, plain_var ''Jlam'' 18.7 10 20, plain_var ''Jgam'' 0.45 0 10,
         plain_var ''Jdel'' 2.12 0 10, plain_var ''mean'' 1865 1850 1880, plain_var ''sigmaL'' 5.23 0 10,
         plain_var ''sigmaR'' 6.8 0 10, plain_var ''mean'' 1865 1850 1880, plain_var ''sigma'' 6.57 0 20,
         plain_var ''a0'' (- 0.009) (- 1) 0,
         plain_var ''frac_D0_down'' 0.18 0.1 1, plain_var ''frac_D0_down_2'' 0.40 0 1,
         plain_var ''frac_D0_up'' 0.21 0.1 1, plain_var ''frac_D0_up_2'' 0.36 0 1,
         plain_var ''frac_D0bar_down'' 0.18 0.1 1, plain_var ''frac_D0bar_down_2'' 0.40 0 1,
         plain_var ''frac_D0bar_up'' 0.23 0.1 1, plain_var ''frac_D0bar_up_2'' 0.37 0 1,
         plain_var ''Nsig_D0_up'' (0.95 * real (GetEntries e (ttree_D0_up cs))) 0 (real (GetEntries e (ttree_D0_up cs))),
         plain_var ''Nsig_D0bar_up'' (0.95 * real (GetEntries e (ttree_D0bar_up cs))) 0 (real (GetEntries e (ttree_D0bar_up cs))),
         plain_var ''Nbkg_D0_up'' (0.05 * real (GetEntries e (ttree_D0_up cs))) 0 (real (GetEntries e (ttree_D0_up cs))),
         plain_var ''Nbkg_D0bar_up'' (0.05 * real (GetEntries e (ttree_D0bar_up cs))) 0 (real (GetEntries e (ttree_D0bar_up cs))),
         plain_var ''Nsig_D0_down'' (0.95 * real (GetEntries e (ttree_D0_down cs))) 0 (real (GetEntries e (ttree_D0_down cs))),
         plain_var ''Nsig_D0bar_down'' (0.95 * real (GetEntries e (ttree_D0bar_down cs))) 0 (real (GetEntries e (ttree_D0bar_down cs))),
         plain_var ''Nbkg_D0_down'' (0.05 * real (GetEntries e (ttree_D0_down cs))) 0 (real (GetEntries e (ttree_D0_down cs))),
         plain_var ''Nbkg_D0bar_down'' (0.05 * real (GetEntries e (ttree_D0bar_down cs))) 0 (real (GetEntries e (ttree_D0bar_down cs)))],
      D0_M = 0, Jmu = 1, Jlam = 2, Jgam = 3, Jdel = 4,
      Johnson = RooJohnson ''Johnson'' ''Johnson'' 0 1 2 3 4,
      sigmaL = 6, sigmaR = 7,
      bifurgauss = RooBifurGauss ''Bifurgauss'' ''Bifurgauss'' 0 5 6 7,
      mean = 8, sigma = 9,
      gaussian = RooGaussian ''gauss'' ''gauss'' 0 8 9,
      a0 = 10,
      background = RooExponential ''exponential'' ''exponential'' 0 10,
      frac_D0_down = 11, frac_D0_down_2 = 12, frac_D0_up = 13, frac_D0_up_2 = 14,
      frac_D0bar_down = 15, frac_D0bar_down_2 = 16, frac_D0bar_up = 17, frac_D0bar_up_2 = 18,
      Nsig_D0_up = 19, Nsig_D0bar_up = 20, Nbkg_D0_up = 21, Nbkg_D0bar_up = 22,
      Nsig_D0_down = 23, Nsig_D0bar_down = 24, Nbkg_D0_down = 25, Nbkg_D0bar_down = 26\<rparr>"
  unfolding declarations_def RooRealVar_def RooRealVar_range_def plain_var_def Let_def prod.case
  by (simp only: list.size append.simps One_nat_def[symmetric] add_0 plus_1_eq_Suc Suc_eq_numeral eval_nat_numeral) simp

section \<open>Lemmas on the export and on reading it back\<close>






lemma dict_set_fresh: "k \<notin> fst ` set d \<Longrightarrow> dict_set d k v = d @ [(k, v)]"
  by (induction d) auto

lemma dict_of_acc:
  "distinct (map fst (acc @ ps)) \<Longrightarrow> foldl (\<lambda>d (k, v). dict_set d k v) acc ps = acc @ ps"
proof (induction ps arbitrary: acc)
  case Nil
  show ?case by simp
next
  case (Cons p ps)
  obtain k v where p: "p = (k, v)" by (cases p)
  have "dict_set acc k v = acc @ [(k, v)]"
    using Cons.prems p by (intro dict_set_fresh) auto
  moreover have "distinct (map fst ((acc @ [(k, v)]) @ ps))"
    using Cons.prems p by simp
  ultimately show ?case
    using Cons.IH [of "acc @ [(k, v)]"] p by simp
qed

lemma dict_of_distinct: "distinct (map fst ps) \<Longrightarrow> dict_of ps = ps"
  unfolding dict_of_def using dict_of_acc [of "[]" ps] by simp



lemma zip_map_same: "zip (map f xs) (map g xs) = map (\<lambda>x. (f x, g x)) xs"
  by (induction xs) simp_all

lemma export_writes_pairs:
  assumes "distinct (map (\<lambda>v. name (h ! v)) vars)"
  shows "export_writes fmt h vars = map (\<lambda>(k, x). k @ '': '' @ fmt x @ [newline]) (exported_pairs h vars)"
proof -
  have d: "dict_of (map (\<lambda>v. (name (h ! v), val (h ! v))) vars) = map (\<lambda>v. (name (h ! v), val (h ! v))) vars"
    using assms by (intro dict_of_distinct) (simp add: comp_def)
  show ?thesis
    by (simp add: export_writes_def exported_pairs_def zip_map_same d filter_map comp_def)
qed

lemma fit_update_nth:
  "i < length h \<Longrightarrow> fit_update r h ! i = (h ! i)\<lparr>val := fst (r i), err := snd (r i)\<rparr>"
  by (simp add: fit_update_def)

lemma fit_update_length: "length (fit_update r h) = length h"
  by (simp add: fit_update_def)

lemma variables_eval:
  "variables (declarations e cs) =
     [10, 11, 12, 13, 14, 15, 16, 17, 18, 23, 25, 19, 21, 24, 26, 20, 22, 6, 7, 1, 2, 3, 4, 8, 9]"
  by (simp add: variables_def declarations_eval)

lemma heap_length: "length (heap (declarations e cs)) = 27"
  by (simp add: declarations_eval)

lemma fitted_names:
  "map (\<lambda>v. name (fit_update r (heap (declarations e cs)) ! v)) (variables (declarations e cs)) =
     [''a0'', ''frac_D0_down'', ''frac_D0_down_2'', ''frac_D0_up'', ''frac_D0_up_2'',
      ''frac_D0bar_down'', ''frac_D0bar_down_2'', ''frac_D0bar_up'', ''frac_D0bar_up_2'',
      ''Nsig_D0_down'', ''Nbkg_D0_down'', ''Nsig_D0_up'', ''Nbkg_D0_up'',
      ''Nsig_D0bar_down'', ''Nbkg_D0bar_down'', ''Nsig_D0bar_up'', ''Nbkg_D0bar_up'',
      ''sigmaL'', ''sigmaR'', ''Jmu'', ''Jlam'', ''Jgam'', ''Jdel'', ''mean'', ''sigma'']"
  by (simp add: variables_eval fit_update_nth heap_length) (simp add: declarations_eval plain_var_def)

lemma fitted_values:
  "map (\<lambda>v. val (fit_update r (heap (declarations e cs)) ! v)) (variables (declarations e cs)) =
     map (\<lambda>v. fst (r v)) (variables (declarations e cs))"
  "map (\<lambda>v. err (fit_update r (heap (declarations e cs)) ! v)) (variables (declarations e cs)) =
     map (\<lambda>v. snd (r v)) (variables (declarations e cs))"
  by (simp_all add: variables_eval fit_update_nth heap_length)

section \<open>The store and the categories of \<^verbatim>\<open>fit_global.py\<close>, evaluated\<close>

lemma fg_declarations_eval:
  "fg_declarations e t tb =
     \<lparr>fg_heap =
        [\<lparr>name = ''D0_MM'', title = ''D0 mass / [MeV/c*c]'', val = (1815 + 1910) / 2, err = - 1, lo = 1815, hi = 1910\<rparr>,
         plain_var ''Jmu'' 1865 1860 1870, plain_var ''Jlam'' 16.3 10 20, plain_var ''Jgam'' 0.3 0 10,
         plain_var ''Jdel'' 1.6 0 10, plain_var ''bifurmean'' 1865.2 1860 1870,
         plain_var ''sigmaL'' 8.24 0 10, plain_var ''sigmaR'' 6.1 0 10,
         plain_var ''bifurmean2'' 1865.5 1860 1870, plain_var ''sigmaL2'' 6 0 10,
         plain_var ''sigmaR2'' 8.49 0 10, plain_var ''a0'' (- 0.009) (- 1) 0,
         plain_var ''frac_D0'' 0.16 0 1, plain_var ''frac_D0_2'' 0.4 0 1,
         plain_var ''frac_D0bar'' 0.3 0 1, plain_var ''frac_D0bar_2'' 0.6 0 1,
         plain_var ''Nsig_D0'' (0.95 * real (GetEntries e t)) 0 (real (GetEntries e t)),
         plain_var ''Nsig_D0bar'' (0.95 * real (GetEntries e tb)) 0 (real (GetEntries e tb)),
         plain_var ''Nbkg_D0'' (0.05 * real (GetEntries e t)) 0 (real (GetEntries e t)),
         plain_var ''Nbkg_D0bar'' (0.05 * real (GetEntries e tb)) 0 (real (GetEntries e tb))],
      fg_D0_M = 0, fg_Jmu = 1, fg_Jlam = 2, fg_Jgam = 3, fg_Jdel = 4,
      fg_Johnson = RooJohnson ''Johnson'' ''Johnson'' 0 1 2 3 4,
      fg_bifurmean = 5, fg_sigmaL = 6, fg_sigmaR = 7,
      fg_bifurgauss = RooBifurGauss ''Bifurgauss'' ''Bifurgauss'' 0 5 6 7,
      fg_bifurmean2 = 8, fg_sigmaL2 = 9, fg_sigmaR2 = 10,
      fg_bifurgauss2 = RooBifurGauss ''Bifurgaussian2'' ''Bifurgaussian2'' 0 8 9 10,
      fg_a0 = 11,
      fg_background = RooExponential ''exponential'' ''exponential'' 0 11,
      fg_frac_D0 = 12, fg_frac_D0_2 = 13, fg_frac_D0bar = 14, fg_frac_D0bar_2 = 15,
      fg_Nsig_D0 = 16, fg_Nsig_D0bar = 17, fg_Nbkg_D0 = 18, fg_Nbkg_D0bar = 19\<rparr>"
  unfolding fg_declarations_def RooRealVar_def RooRealVar_range_def plain_var_def Let_def prod.case
  by (simp only: list.size append.simps One_nat_def[symmetric] add_0 plus_1_eq_Suc Suc_eq_numeral eval_nat_numeral) simp

lemma signals_eval:
  "signal_D0_up (binned_block fitTo cs d) = RooAddPdf ''signal_D0_up'' ''signal D0 up''
      [bifurgauss d, gaussian d, Johnson d] [frac_D0_up d, frac_D0_up_2 d]"
  "signal_D0_down (binned_block fitTo cs d) = RooAddPdf ''signal_D0_down'' ''signal D0 down''
      [bifurgauss d, gaussian d, Johnson d] [frac_D0_down d, frac_D0_down_2 d]"
  "signal_D0bar_up (binned_block fitTo cs d) = RooAddPdf ''signal_D0bar_up'' ''signal D0bar up''
      [bifurgauss d, gaussian d, Johnson d] [frac_D0bar_up d, frac_D0bar_up_2 d]"
  "signal_D0bar_down (binned_block fitTo cs d) = RooAddPdf ''signal_D0bar_down'' ''signal D0bar down''
      [bifurgauss d, gaussian d, Johnson d] [frac_D0bar_down d, frac_D0bar_down_2 d]"
  by (simp_all add: binned_block_def Let_def)

lemma fg_signals_eval:
  "fg_signal_D0 (fg_binned_block fitTo t tb g) = RooAddPdf ''signal_D0'' ''signal D0''
      [fg_Johnson g, fg_bifurgauss g, fg_bifurgauss2 g] [fg_frac_D0 g, fg_frac_D0_2 g]"
  "fg_signal_D0bar (fg_binned_block fitTo t tb g) = RooAddPdf ''signal_D0bar'' ''signal D0bar''
      [fg_Johnson g, fg_bifurgauss g, fg_bifurgauss2 g] [fg_frac_D0bar g, fg_frac_D0bar_2 g]"
  by (simp_all add: fg_binned_block_def Let_def)

lemma categories_eval:
  "binned_sample (binned_block fitTo cs d) =
     [''Binned_D0_up_sample'', ''Binned_D0_down_sample'', ''Binned_D0bar_up_sample'', ''Binned_D0bar_down_sample'']"
  "map fst (simultaneous_pdf (binned_block fitTo cs d)) =
     [''Binned_D0_up_sample'', ''Binned_D0_down_sample'', ''Binned_D0bar_up_sample'', ''Binned_D0bar_down_sample'']"
  "map fst (imports' (binned_block fitTo cs d)) =
     [''Binned_D0_up_sample'', ''Binned_D0bar_up_sample'', ''Binned_D0_down_sample'', ''Binned_D0bar_down_sample'']"
  by (simp_all add: binned_block_def Let_def defineType_def addPdf_def)

lemma fg_categories_eval:
  "fg_binned_sample (fg_binned_block fitTo t tb g) = [''Binned_D0_sample'', ''Binned_D0bar_sample'']"
  "map fst (fg_simultaneous_pdf (fg_binned_block fitTo t tb g)) = [''Binned_D0_sample'', ''Binned_D0bar_sample'']"
  "map fst (fg_imports (fg_binned_block fitTo t tb g)) = [''Binned_D0_sample'', ''Binned_D0bar'']"
  "sd_index (fg_simultaneous_data (fg_binned_block fitTo t tb g)) = fg_binned_sample (fg_binned_block fitTo t tb g)"
  "sd_imports (fg_simultaneous_data (fg_binned_block fitTo t tb g)) = fg_imports (fg_binned_block fitTo t tb g)"
  "length (fg_imports (fg_binned_block fitTo t tb g)) = 2"
  by (simp_all add: fg_binned_block_def Let_def defineType_def addPdf_def)

section \<open>Claims about the parameter registry\<close>




text \<open>
  Claim C7, as stated, fails: in \<^verbatim>\<open>fit_global_model7.py\<close> the first mixing fraction of a
  category has the lower bound \<open>0.1\<close>, so not all of the interval from 0 to 1 is admitted.
\<close>

theorem first_fraction_excludes_zero:
  "\<not> (\<forall>x. 0 \<le> x \<and> x \<le> 1 \<longrightarrow>
          admits (heap (declarations (\<lambda>f. 0) initial_chains) ! frac_D0_down (declarations (\<lambda>f. 0) initial_chains)) x)"
proof
  assume "\<forall>x. 0 \<le> x \<and> x \<le> 1 \<longrightarrow>
          admits (heap (declarations (\<lambda>f. 0) initial_chains) ! frac_D0_down (declarations (\<lambda>f. 0) initial_chains)) x"
  then have "(0 :: real) \<le> 0 \<and> (0 :: real) \<le> 1 \<longrightarrow>
          admits (heap (declarations (\<lambda>f. 0) initial_chains) ! frac_D0_down (declarations (\<lambda>f. 0) initial_chains)) 0"
    by (rule spec)
  then show False
    by (simp add: declarations_eval plain_var_def admits_def)
qed

text \<open>
  Claim C7, amended. Every signal mixture of the two scripts has three components and
  two mixing fractions, one fewer than components, and the fractions of all mixtures of a
  script are different objects. Every fraction has upper bound 1 and a lower bound that is
  not negative: the admitted values lie between 0 and 1. The lower bound is 0 for every
  fraction of \<^verbatim>\<open>fit_global.py\<close> and for the second fraction of every category of
  \<^verbatim>\<open>fit_global_model7.py\<close>, and \<open>0.1\<close> for the first fraction of every category there.
\<close>

theorem fractions_one_fewer_within_unit_interval:
  "map (\<lambda>s. (length (components s), length (coefficients s)))
       (signals (binned_block fitTo cs (declarations e cs))) = [(3, 2), (3, 2), (3, 2), (3, 2)]
   \<and> map (\<lambda>s. (length (components s), length (coefficients s)))
       (fg_signals (fg_binned_block fitTo t tb (fg_declarations e t tb))) = [(3, 2), (3, 2)]
   \<and> distinct (concat (map coefficients (signals (binned_block fitTo cs (declarations e cs)))))
   \<and> distinct (concat (map coefficients (fg_signals (fg_binned_block fitTo t tb (fg_declarations e t tb)))))
   \<and> map (range_of (heap (declarations e cs)))
       (concat (map coefficients (signals (binned_block fitTo cs (declarations e cs)))))
     = [(0.1, 1), (0, 1), (0.1, 1), (0, 1), (0.1, 1), (0, 1), (0.1, 1), (0, 1)]
   \<and> map (range_of (fg_heap (fg_declarations e t tb)))
       (concat (map coefficients (fg_signals (fg_binned_block fitTo t tb (fg_declarations e t tb)))))
     = [(0, 1), (0, 1), (0, 1), (0, 1)]
   \<and> list_all (\<lambda>v. admits (heap (declarations e cs) ! v) x = (lo (heap (declarations e cs) ! v) \<le> x \<and> x \<le> 1)
                  \<and> 0 \<le> lo (heap (declarations e cs) ! v))
       (concat (map coefficients (signals (binned_block fitTo cs (declarations e cs)))))
   \<and> list_all (\<lambda>v. admits (fg_heap (fg_declarations e t tb) ! v) x = (0 \<le> x \<and> x \<le> 1))
       (concat (map coefficients (fg_signals (fg_binned_block fitTo t tb (fg_declarations e t tb)))))"
  by (simp add: signals_def fg_signals_def signals_eval fg_signals_eval range_of_def admits_def)
     (simp add: declarations_eval fg_declarations_eval plain_var_def)

section \<open>Claims about the control flow of the scripts\<close>

text \<open>
  Claim C3 says that an unbinned request (\<^verbatim>\<open>--binned_fit n\<close> or \<^verbatim>\<open>N\<close>) binds raw samples
  and produces a fit result as the binned mode does. The script has no unbinned branch:
  whenever the flag is neither \<^verbatim>\<open>y\<close> nor \<^verbatim>\<open>Y\<close>, no fit is made and the run ends with
  \<^verbatim>\<open>NameError\<close> at \<^verbatim>\<open>fitResult.Print()\<close>.
\<close>

theorem unbinned_request_raises_NameError:
  assumes "binned_fit a \<noteq> ''y''" "binned_fit a \<noteq> ''Y''"
  shows "main fitTo entries fmt a = Inl (NameError ''fitResult'')"
  using assms by (simp add: main_def Let_def)

theorem unbinned_request_raises_NameError_witness:
  "binned_fit \<lparr>year = 16, size_arg = 10, path = ''out'', binned_fit = ''n'', input = ''in'',
        scheme = ''total'', bin = None\<rparr> \<noteq> ''y''
   \<and> main (\<lambda>m dt h v. (0, 0)) (\<lambda>f. 1000) (\<lambda>x. ''0.0'')
        \<lparr>year = 16, size_arg = 10, path = ''out'', binned_fit = ''n'', input = ''in'',
         scheme = ''total'', bin = None\<rparr> = Inl (NameError ''fitResult'')"
  using unbinned_request_raises_NameError [of
      "\<lparr>year = 16, size_arg = 10, path = ''out'', binned_fit = ''n'', input = ''in'',
        scheme = ''total'', bin = None\<rparr>" "\<lambda>m dt h v. (0, 0)" "\<lambda>f. 1000" "\<lambda>x. ''0.0''"]
  by simp

text \<open>
  Claim C5 says that every data set is imported under a label that is a defined type of
  the category. In \<^verbatim>\<open>fit_global.py\<close> the category has the types \<^verbatim>\<open>Binned_D0_sample\<close> and
  \<^verbatim>\<open>Binned_D0bar_sample\<close>, and the second data set is imported under \<^verbatim>\<open>Binned_D0bar\<close>,
  which is not one of them; the numbers of types and of imports are equal all the same.
\<close>

theorem fit_global_imports_undefined_label:
  "fg_binned_sample (fg_binned_block fitTo t tb g) = [''Binned_D0_sample'', ''Binned_D0bar_sample'']
   \<and> map fst (fg_imports (fg_binned_block fitTo t tb g)) = [''Binned_D0_sample'', ''Binned_D0bar'']
   \<and> sd_index (fg_simultaneous_data (fg_binned_block fitTo t tb g)) = fg_binned_sample (fg_binned_block fitTo t tb g)
   \<and> sd_imports (fg_simultaneous_data (fg_binned_block fitTo t tb g)) = fg_imports (fg_binned_block fitTo t tb g)
   \<and> ''Binned_D0bar'' \<notin> set (fg_binned_sample (fg_binned_block fitTo t tb g))
   \<and> ''Binned_D0bar_sample'' \<notin> set (map fst (fg_imports (fg_binned_block fitTo t tb g)))
   \<and> length (fg_binned_sample (fg_binned_block fitTo t tb g)) = length (fg_imports (fg_binned_block fitTo t tb g))"
  by (simp add: fg_categories_eval)

text \<open>In \<^verbatim>\<open>fit_global_model7.py\<close> the import labels are the types of the category.\<close>

lemma model7_imports_defined_labels:
  "set (map fst (imports' (binned_block fitTo cs d))) = set (binned_sample (binned_block fitTo cs d))
   \<and> map fst (simultaneous_pdf (binned_block fitTo cs d)) = binned_sample (binned_block fitTo cs d)
   \<and> distinct (map fst (imports' (binned_block fitTo cs d)))"
  by (auto simp: categories_eval)

text \<open>
  \<^verbatim>\<open>fit_global.py\<close> reaches its binned block, and its end, exactly for year 19 in the
  \<^verbatim>\<open>total\<close> scheme with a binned fit: no variable is unassigned on that path. Without a
  binned fit it stops with \<^verbatim>\<open>NameError\<close> as \<^verbatim>\<open>fit_global_model7.py\<close> does.
\<close>

lemma fg_main_total_binned:
  assumes "fg_year a = 19" "fg_scheme a = ''total''" "fg_binned_fit a = ''y'' \<or> fg_binned_fit a = ''Y''"
  shows "\<exists>text. fg_main fitTo entries fmt_e a = Inr (fg_path a @ ''/fit_parameters.txt'', text)"
  using assms by (auto simp: fg_main_def fg_load_def Let_def)

lemma fg_main_unbinned:
  assumes "fg_binned_fit a \<noteq> ''y''" "fg_binned_fit a \<noteq> ''Y''"
  shows "\<exists>n. fg_main fitTo entries fmt_e a = Inl (NameError n)"
  using assms by (auto simp: fg_main_def fg_load_def Let_def)

section \<open>Claims about the exported file\<close>

lemma fitted_eval: "fitted (binned_block fitTo cs d) = fit_update (fitResult (binned_block fitTo cs d)) (heap d)"
  by (simp add: binned_block_def Let_def)

lemma nsig_filter:
  "filter (\<lambda>v. startswith (name (fit_update r (heap (declarations e cs)) ! v)) ''Nsig_'')
       (variables (declarations e cs)) = [23, 19, 24, 20]"
  by (simp add: variables_eval fit_update_nth heap_length)
     (simp add: declarations_eval plain_var_def startswith_def)

lemma yields_eval:
  "[Nsig_D0_down (declarations e cs), Nsig_D0_up (declarations e cs),
    Nsig_D0bar_down (declarations e cs), Nsig_D0bar_up (declarations e cs)] = [23, 19, 24, 20]"
  by (simp add: declarations_eval)

lemma exported_keys:
  "map fst (exported_pairs (fit_update r (heap (declarations e cs))) (variables (declarations e cs))) =
     [''a0'', ''frac_D0_down'', ''frac_D0_down_2'', ''frac_D0_up'', ''frac_D0_up_2'',
      ''frac_D0bar_down'', ''frac_D0bar_down_2'', ''frac_D0bar_up'', ''frac_D0bar_up_2'',
      ''Nsig_D0_down'', ''Nbkg_D0_down'', ''Nsig_D0_up'', ''Nbkg_D0_up'',
      ''Nsig_D0bar_down'', ''Nbkg_D0bar_down'', ''Nsig_D0bar_up'', ''Nbkg_D0bar_up'',
      ''sigmaL'', ''sigmaR'', ''Jmu'', ''Jlam'', ''Jgam'', ''Jdel'', ''mean'', ''sigma'',
      ''Nsig_D0_down_error'', ''Nsig_D0_up_error'', ''Nsig_D0bar_down_error'', ''Nsig_D0bar_up_error'']"
proof -
  have e: "map (\<lambda>v. name (fit_update r (heap (declarations e cs)) ! v) @ ''_error'') [23, 19, 24, 20]
      = [''Nsig_D0_down_error'', ''Nsig_D0_up_error'', ''Nsig_D0bar_down_error'', ''Nsig_D0bar_up_error'']"
    by (simp add: fit_update_nth heap_length) (simp add: declarations_eval plain_var_def)
  show ?thesis
    by (simp only: exported_pairs_def map_append map_map comp_def fst_conv nsig_filter fitted_names e)
       simp
qed

lemma exported_values:
  "map snd (exported_pairs (fit_update r (heap (declarations e cs))) (variables (declarations e cs))) =
     map (\<lambda>v. val (fit_update r (heap (declarations e cs)) ! v)) (variables (declarations e cs))
     @ map (\<lambda>v. err (fit_update r (heap (declarations e cs)) ! v))
         [Nsig_D0_down (declarations e cs), Nsig_D0_up (declarations e cs),
          Nsig_D0bar_down (declarations e cs), Nsig_D0bar_up (declarations e cs)]"
  by (simp only: exported_pairs_def map_append map_map comp_def snd_conv nsig_filter yields_eval)

lemma exported_names_distinct:
  "distinct (map (\<lambda>v. name (fit_update r (heap (declarations e cs)) ! v)) (variables (declarations e cs)))"
  by (simp only: fitted_names) simp


lemma main_binned:
  assumes "binned_fit a = ''y'' \<or> binned_fit a = ''Y''"
  shows "main fitTo entries fmt a =
     Inr (path a @ ''/fit_parameters.txt'',
          concat (map (\<lambda>(k, x). k @ '': '' @ fmt x @ [newline])
            (exported_pairs (model7_store fitTo entries a) (variables (model7_decls entries a)))))"
proof -
  have "main fitTo entries fmt a =
     Inr (path a @ ''/fit_parameters.txt'',
          concat (export_writes fmt (model7_store fitTo entries a) (variables (model7_decls entries a))))"
    using assms by (auto simp: main_def Let_def model7_store_def model7_decls_def)
  moreover have "export_writes fmt (model7_store fitTo entries a) (variables (model7_decls entries a))
      = map (\<lambda>(k, x). k @ '': '' @ fmt x @ [newline])
            (exported_pairs (model7_store fitTo entries a) (variables (model7_decls entries a)))"
    unfolding model7_store_def model7_decls_def fitted_eval
    by (rule export_writes_pairs) (rule exported_names_distinct)
  ultimately show ?thesis by simp
qed

lemma fitResult_eval:
  "fitResult (binned_block fitTo cs d)
     = fitTo (simultaneous_pdf (binned_block fitTo cs d)) (simultaneous_data (binned_block fitTo cs d)) (heap d)"
  by (simp add: binned_block_def Let_def)

lemma constant_fit_pairs:
  "exported_pairs (model7_store (\<lambda>m dt h v. (1, 2)) e a) (variables (model7_decls e a)) =
     [(''a0'', 1), (''frac_D0_down'', 1), (''frac_D0_down_2'', 1), (''frac_D0_up'', 1), (''frac_D0_up_2'', 1),
      (''frac_D0bar_down'', 1), (''frac_D0bar_down_2'', 1), (''frac_D0bar_up'', 1), (''frac_D0bar_up_2'', 1),
      (''Nsig_D0_down'', 1), (''Nbkg_D0_down'', 1), (''Nsig_D0_up'', 1), (''Nbkg_D0_up'', 1),
      (''Nsig_D0bar_down'', 1), (''Nbkg_D0bar_down'', 1), (''Nsig_D0bar_up'', 1), (''Nbkg_D0bar_up'', 1),
      (''sigmaL'', 1), (''sigmaR'', 1), (''Jmu'', 1), (''Jlam'', 1), (''Jgam'', 1), (''Jdel'', 1),
      (''mean'', 1), (''sigma'', 1),
      (''Nsig_D0_down_error'', 2), (''Nsig_D0_up_error'', 2), (''Nsig_D0bar_down_error'', 2),
      (''Nsig_D0bar_up_error'', 2)]"
proof -
  let ?p = "exported_pairs (model7_store (\<lambda>m dt h v. (1, 2)) e a) (variables (model7_decls e a))"
  have v: "map snd ?p = replicate 25 1 @ replicate 4 2"
    unfolding model7_store_def model7_decls_def fitted_eval exported_values fitResult_eval
    by (simp add: variables_eval yields_eval fit_update_nth heap_length eval_nat_numeral)
  have k: "map fst ?p = [''a0'', ''frac_D0_down'', ''frac_D0_down_2'', ''frac_D0_up'', ''frac_D0_up_2'',
        ''frac_D0bar_down'', ''frac_D0bar_down_2'', ''frac_D0bar_up'', ''frac_D0bar_up_2'',
        ''Nsig_D0_down'', ''Nbkg_D0_down'', ''Nsig_D0_up'', ''Nbkg_D0_up'',
        ''Nsig_D0bar_down'', ''Nbkg_D0bar_down'', ''Nsig_D0bar_up'', ''Nbkg_D0bar_up'',
        ''sigmaL'', ''sigmaR'', ''Jmu'', ''Jlam'', ''Jgam'', ''Jdel'', ''mean'', ''sigma'',
        ''Nsig_D0_down_error'', ''Nsig_D0_up_error'', ''Nsig_D0bar_down_error'', ''Nsig_D0bar_up_error'']"
    unfolding model7_store_def model7_decls_def fitted_eval by (rule exported_keys)
  have "?p = zip (map fst ?p) (map snd ?p)"
    by (simp add: zip_map_fst_snd)
  also have "\<dots> = zip [''a0'', ''frac_D0_down'', ''frac_D0_down_2'', ''frac_D0_up'', ''frac_D0_up_2'',
        ''frac_D0bar_down'', ''frac_D0bar_down_2'', ''frac_D0bar_up'', ''frac_D0bar_up_2'',
        ''Nsig_D0_down'', ''Nbkg_D0_down'', ''Nsig_D0_up'', ''Nbkg_D0_up'',
        ''Nsig_D0bar_down'', ''Nbkg_D0bar_down'', ''Nsig_D0bar_up'', ''Nbkg_D0bar_up'',
        ''sigmaL'', ''sigmaR'', ''Jmu'', ''Jlam'', ''Jgam'', ''Jdel'', ''mean'', ''sigma'',
        ''Nsig_D0_down_error'', ''Nsig_D0_up_error'', ''Nsig_D0bar_down_error'', ''Nsig_D0bar_up_error'']
        (replicate 25 1 @ replicate 4 2)"
    by (simp only: k v)
  also have "\<dots> = [(''a0'', 1), (''frac_D0_down'', 1), (''frac_D0_down_2'', 1), (''frac_D0_up'', 1), (''frac_D0_up_2'', 1),
      (''frac_D0bar_down'', 1), (''frac_D0bar_down_2'', 1), (''frac_D0bar_up'', 1), (''frac_D0bar_up_2'', 1),
      (''Nsig_D0_down'', 1), (''Nbkg_D0_down'', 1), (''Nsig_D0_up'', 1), (''Nbkg_D0_up'', 1),
      (''Nsig_D0bar_down'', 1), (''Nbkg_D0bar_down'', 1), (''Nsig_D0bar_up'', 1), (''Nbkg_D0bar_up'', 1),
      (''sigmaL'', 1), (''sigmaR'', 1), (''Jmu'', 1), (''Jlam'', 1), (''Jgam'', 1), (''Jdel'', 1),
      (''mean'', 1), (''sigma'', 1),
      (''Nsig_D0_down_error'', 2), (''Nsig_D0_up_error'', 2), (''Nsig_D0bar_down_error'', 2),
      (''Nsig_D0bar_up_error'', 2)]"
    by (simp add: eval_nat_numeral)
  finally show ?thesis .
qed

lemma spec_export_count:
  "length (spec_export_writes fmt (fit_update r (heap (declarations e cs))) (D0_M (declarations e cs))) = 34"
proof -
  have obs: "D0_M (declarations e cs) = 0"
    by (simp add: declarations_eval)
  show ?thesis
    unfolding spec_export_writes_def fit_update_length heap_length obs
    by (simp add: upt_rec fit_update_nth declarations_eval plain_var_def startswith_def)
qed

lemma export_count:
  "length (export_writes fmt (fit_update r (heap (declarations e cs))) (variables (declarations e cs))) = 29"
proof -
  have "length (exported_pairs (fit_update r (heap (declarations e cs))) (variables (declarations e cs)))
      = length (map fst (exported_pairs (fit_update r (heap (declarations e cs))) (variables (declarations e cs))))"
    by simp
  also have "\<dots> = 29"
    unfolding exported_keys by simp
  finally show ?thesis
    by (simp add: export_writes_pairs [OF exported_names_distinct])
qed




text \<open>
  Claim C4, as stated, fails. With the lines the specification words (one per declared
  parameter in the order of declaration, then an error line for each of the eight yields)
  there would be 34 lines, the first for \<^verbatim>\<open>Jmu\<close>; the script writes 29, the first for \<^verbatim>\<open>a0\<close>.
\<close>

theorem export_is_not_declaration_order_with_all_yield_errors:
  "length (export_writes (\<lambda>x. ''1.0'')
       (model7_store (\<lambda>m dt h v. (1, 2)) (\<lambda>f. 1000)
          \<lparr>year = 16, size_arg = 10, path = ''out'', binned_fit = ''y'', input = ''in'',
           scheme = ''total'', bin = None\<rparr>)
       (variables (model7_decls (\<lambda>f. 1000)
          \<lparr>year = 16, size_arg = 10, path = ''out'', binned_fit = ''y'', input = ''in'',
           scheme = ''total'', bin = None\<rparr>))) = 29
   \<and> length (spec_export_writes (\<lambda>x. ''1.0'')
       (model7_store (\<lambda>m dt h v. (1, 2)) (\<lambda>f. 1000)
          \<lparr>year = 16, size_arg = 10, path = ''out'', binned_fit = ''y'', input = ''in'',
           scheme = ''total'', bin = None\<rparr>)
       (D0_M (model7_decls (\<lambda>f. 1000)
          \<lparr>year = 16, size_arg = 10, path = ''out'', binned_fit = ''y'', input = ''in'',
           scheme = ''total'', bin = None\<rparr>))) = 34
   \<and> export_writes (\<lambda>x. ''1.0'')
       (model7_store (\<lambda>m dt h v. (1, 2)) (\<lambda>f. 1000)
          \<lparr>year = 16, size_arg = 10, path = ''out'', binned_fit = ''y'', input = ''in'',
           scheme = ''total'', bin = None\<rparr>)
       (variables (model7_decls (\<lambda>f. 1000)
          \<lparr>year = 16, size_arg = 10, path = ''out'', binned_fit = ''y'', input = ''in'',
           scheme = ''total'', bin = None\<rparr>))
     \<noteq> spec_export_writes (\<lambda>x. ''1.0'')
       (model7_store (\<lambda>m dt h v. (1, 2)) (\<lambda>f. 1000)
          \<lparr>year = 16, size_arg = 10, path = ''out'', binned_fit = ''y'', input = ''in'',
           scheme = ''total'', bin = None\<rparr>)
       (D0_M (model7_decls (\<lambda>f. 1000)
          \<lparr>year = 16, size_arg = 10, path = ''out'', binned_fit = ''y'', input = ''in'',
           scheme = ''total'', bin = None\<rparr>))"
  unfolding model7_store_def model7_decls_def fitted_eval
proof (intro conjI)
  fix fmt :: "real \<Rightarrow> string" and r :: "addr \<Rightarrow> real \<times> real" and e :: "string \<Rightarrow> nat" and cs :: chains
  show "length (export_writes fmt (fit_update r (heap (declarations e cs))) (variables (declarations e cs))) = 29"
    by (rule export_count)
  show "length (spec_export_writes fmt (fit_update r (heap (declarations e cs))) (D0_M (declarations e cs))) = 34"
    by (rule spec_export_count)
  show "export_writes fmt (fit_update r (heap (declarations e cs))) (variables (declarations e cs))
      \<noteq> spec_export_writes fmt (fit_update r (heap (declarations e cs))) (D0_M (declarations e cs))"
  proof
    assume "export_writes fmt (fit_update r (heap (declarations e cs))) (variables (declarations e cs))
      = spec_export_writes fmt (fit_update r (heap (declarations e cs))) (D0_M (declarations e cs))"
    then have "length (export_writes fmt (fit_update r (heap (declarations e cs))) (variables (declarations e cs)))
      = length (spec_export_writes fmt (fit_update r (heap (declarations e cs))) (D0_M (declarations e cs)))"
      by (rule arg_cong)
    then show False
      unfolding export_count spec_export_count by simp
  qed
qed

text \<open>
  Claim C4, amended. After a binned fit \<^verbatim>\<open>fit_global_model7.py\<close> writes to
  \<^verbatim>\<open>fit_parameters.txt\<close> one line \<^verbatim>\<open>name: value\<close> for each of the 25 entries of its list
  \<^verbatim>\<open>variables\<close>, in the order of that list, followed by one line \<^verbatim>\<open>name_error: value\<close> for
  each of the four signal yields (the names that start with \<^verbatim>\<open>Nsig_\<close>), in the order of the
  list, and nothing else.
\<close>

theorem export_writes_variables_then_signal_errors:
  assumes "binned_fit a = ''y'' \<or> binned_fit a = ''Y''"
  shows "main fitTo entries fmt a =
       Inr (path a @ ''/fit_parameters.txt'',
            concat (map (\<lambda>(k, x). k @ '': '' @ fmt x @ [newline])
              (exported_pairs (model7_store fitTo entries a) (variables (model7_decls entries a)))))
     \<and> map fst (exported_pairs (model7_store fitTo entries a) (variables (model7_decls entries a))) =
       [''a0'', ''frac_D0_down'', ''frac_D0_down_2'', ''frac_D0_up'', ''frac_D0_up_2'',
        ''frac_D0bar_down'', ''frac_D0bar_down_2'', ''frac_D0bar_up'', ''frac_D0bar_up_2'',
        ''Nsig_D0_down'', ''Nbkg_D0_down'', ''Nsig_D0_up'', ''Nbkg_D0_up'',
        ''Nsig_D0bar_down'', ''Nbkg_D0bar_down'', ''Nsig_D0bar_up'', ''Nbkg_D0bar_up'',
        ''sigmaL'', ''sigmaR'', ''Jmu'', ''Jlam'', ''Jgam'', ''Jdel'', ''mean'', ''sigma'',
        ''Nsig_D0_down_error'', ''Nsig_D0_up_error'', ''Nsig_D0bar_down_error'', ''Nsig_D0bar_up_error'']
     \<and> map snd (exported_pairs (model7_store fitTo entries a) (variables (model7_decls entries a))) =
       map (\<lambda>v. val (model7_store fitTo entries a ! v)) (variables (model7_decls entries a))
       @ map (\<lambda>v. err (model7_store fitTo entries a ! v))
           [Nsig_D0_down (model7_decls entries a), Nsig_D0_up (model7_decls entries a),
            Nsig_D0bar_down (model7_decls entries a), Nsig_D0bar_up (model7_decls entries a)]"
proof (intro conjI)
  show "main fitTo entries fmt a =
       Inr (path a @ ''/fit_parameters.txt'',
            concat (map (\<lambda>(k, x). k @ '': '' @ fmt x @ [newline])
              (exported_pairs (model7_store fitTo entries a) (variables (model7_decls entries a)))))"
    by (rule main_binned [OF assms])
  show "map fst (exported_pairs (model7_store fitTo entries a) (variables (model7_decls entries a))) =
       [''a0'', ''frac_D0_down'', ''frac_D0_down_2'', ''frac_D0_up'', ''frac_D0_up_2'',
        ''frac_D0bar_down'', ''frac_D0bar_down_2'', ''frac_D0bar_up'', ''frac_D0bar_up_2'',
        ''Nsig_D0_down'', ''Nbkg_D0_down'', ''Nsig_D0_up'', ''Nbkg_D0_up'',
        ''Nsig_D0bar_down'', ''Nbkg_D0bar_down'', ''Nsig_D0bar_up'', ''Nbkg_D0bar_up'',
        ''sigmaL'', ''sigmaR'', ''Jmu'', ''Jlam'', ''Jgam'', ''Jdel'', ''mean'', ''sigma'',
        ''Nsig_D0_down_error'', ''Nsig_D0_up_error'', ''Nsig_D0bar_down_error'', ''Nsig_D0bar_up_error'']"
    unfolding model7_store_def model7_decls_def fitted_eval by (rule exported_keys)
  show "map snd (exported_pairs (model7_store fitTo entries a) (variables (model7_decls entries a))) =
       map (\<lambda>v. val (model7_store fitTo entries a ! v)) (variables (model7_decls entries a))
       @ map (\<lambda>v. err (model7_store fitTo entries a ! v))
           [Nsig_D0_down (model7_decls entries a), Nsig_D0_up (model7_decls entries a),
            Nsig_D0bar_down (model7_decls entries a), Nsig_D0bar_up (model7_decls entries a)]"
    unfolding model7_store_def model7_decls_def fitted_eval by (rule exported_values)
qed

theorem export_writes_variables_then_signal_errors_witness:
  "binned_fit \<lparr>year = 16, size_arg = 10, path = ''out'', binned_fit = ''y'', input = ''in'',
        scheme = ''total'', bin = None\<rparr> = ''y''
   \<and> main (\<lambda>m dt h v. (1, 2)) (\<lambda>f. 1000) (\<lambda>x. if x = 1 then ''1.0'' else ''2.0'')
        \<lparr>year = 16, size_arg = 10, path = ''out'', binned_fit = ''y'', input = ''in'',
         scheme = ''total'', bin = None\<rparr>
     = Inr (''out/fit_parameters.txt'',
         concat (map (\<lambda>l. l @ [newline])
           [''a0: 1.0'', ''frac_D0_down: 1.0'', ''frac_D0_down_2: 1.0'', ''frac_D0_up: 1.0'',
            ''frac_D0_up_2: 1.0'', ''frac_D0bar_down: 1.0'', ''frac_D0bar_down_2: 1.0'',
            ''frac_D0bar_up: 1.0'', ''frac_D0bar_up_2: 1.0'', ''Nsig_D0_down: 1.0'', ''Nbkg_D0_down: 1.0'',
            ''Nsig_D0_up: 1.0'', ''Nbkg_D0_up: 1.0'', ''Nsig_D0bar_down: 1.0'', ''Nbkg_D0bar_down: 1.0'',
            ''Nsig_D0bar_up: 1.0'', ''Nbkg_D0bar_up: 1.0'', ''sigmaL: 1.0'', ''sigmaR: 1.0'', ''Jmu: 1.0'',
            ''Jlam: 1.0'', ''Jgam: 1.0'', ''Jdel: 1.0'', ''mean: 1.0'', ''sigma: 1.0'',
            ''Nsig_D0_down_error: 2.0'', ''Nsig_D0_up_error: 2.0'', ''Nsig_D0bar_down_error: 2.0'',
            ''Nsig_D0bar_up_error: 2.0'']))"
proof -
  let ?a = "\<lparr>year = 16, size_arg = 10, path = ''out'', binned_fit = ''y'', input = ''in'',
        scheme = ''total'', bin = None\<rparr>"
  have b: "binned_fit ?a = ''y'' \<or> binned_fit ?a = ''Y''"
    by simp
  from export_writes_variables_then_signal_errors [OF b, of "\<lambda>m dt h v. (1, 2)" "\<lambda>f. 1000"
      "\<lambda>x. if x = 1 then ''1.0'' else ''2.0''"]
  have "main (\<lambda>m dt h v. (1, 2)) (\<lambda>f. 1000) (\<lambda>x. if x = 1 then ''1.0'' else ''2.0'') ?a =
       Inr (path ?a @ ''/fit_parameters.txt'',
            concat (map (\<lambda>(k, x). k @ '': '' @ (if x = (1::real) then ''1.0'' else ''2.0'') @ [newline])
              (exported_pairs (model7_store (\<lambda>m dt h v. (1, 2)) (\<lambda>f. 1000) ?a)
                 (variables (model7_decls (\<lambda>f. 1000) ?a)))))"
    by (rule conjunct1)
  then show ?thesis
    unfolding constant_fit_pairs by simp
qed



section \<open>Which parameters a category refers to\<close>

text \<open>
  The joint model of \<^verbatim>\<open>fit_global_model7.py\<close>: every category refers to the same shape
  parameters and to fractions and yields of its own. The likelihood itself is evaluated by
  the library and is not part of the scripts.
\<close>

lemma models_eval:
  "simultaneous_pdf (binned_block fitTo cs d) =
     [(''Binned_D0_up_sample'', RooAddPdf ''model_D0_up'' ''model D0 up''
         [RooAddPdf ''signal_D0_up'' ''signal D0 up'' [bifurgauss d, gaussian d, Johnson d] [frac_D0_up d, frac_D0_up_2 d],
          background d] [Nsig_D0_up d, Nbkg_D0_up d]),
      (''Binned_D0_down_sample'', RooAddPdf ''model_D0_down'' ''model D0 down''
         [RooAddPdf ''signal_D0_down'' ''signal D0 down'' [bifurgauss d, gaussian d, Johnson d] [frac_D0_down d, frac_D0_down_2 d],
          background d] [Nsig_D0_down d, Nbkg_D0_down d]),
      (''Binned_D0bar_up_sample'', RooAddPdf ''model_D0bar_up'' ''model D0bar up''
         [RooAddPdf ''signal_D0bar_up'' ''signal D0bar up'' [bifurgauss d, gaussian d, Johnson d] [frac_D0bar_up d, frac_D0bar_up_2 d],
          background d] [Nsig_D0bar_up d, Nbkg_D0bar_up d]),
      (''Binned_D0bar_down_sample'', RooAddPdf ''model_D0bar_down'' ''model D0bar down''
         [RooAddPdf ''signal_D0bar_down'' ''signal D0bar down'' [bifurgauss d, gaussian d, Johnson d] [frac_D0bar_down d, frac_D0bar_down_2 d],
          background d] [Nsig_D0bar_down d, Nbkg_D0bar_down d])]"
  by (simp add: binned_block_def Let_def addPdf_def)

lemma model7_category_parameters:
  "map (\<lambda>(l, m). (l, map (\<lambda>v. name (heap (declarations e cs) ! v)) (parameters_of m)))
       (simultaneous_pdf (binned_block fitTo cs (declarations e cs))) =
     [(''Binned_D0_up_sample'',
         [''mean'', ''sigmaL'', ''sigmaR'', ''mean'', ''sigma'', ''Jmu'', ''Jlam'', ''Jgam'', ''Jdel'',
          ''frac_D0_up'', ''frac_D0_up_2'', ''a0'', ''Nsig_D0_up'', ''Nbkg_D0_up'']),
      (''Binned_D0_down_sample'',
         [''mean'', ''sigmaL'', ''sigmaR'', ''mean'', ''sigma'', ''Jmu'', ''Jlam'', ''Jgam'', ''Jdel'',
          ''frac_D0_down'', ''frac_D0_down_2'', ''a0'', ''Nsig_D0_down'', ''Nbkg_D0_down'']),
      (''Binned_D0bar_up_sample'',
         [''mean'', ''sigmaL'', ''sigmaR'', ''mean'', ''sigma'', ''Jmu'', ''Jlam'', ''Jgam'', ''Jdel'',
          ''frac_D0bar_up'', ''frac_D0bar_up_2'', ''a0'', ''Nsig_D0bar_up'', ''Nbkg_D0bar_up'']),
      (''Binned_D0bar_down_sample'',
         [''mean'', ''sigmaL'', ''sigmaR'', ''mean'', ''sigma'', ''Jmu'', ''Jlam'', ''Jgam'', ''Jdel'',
          ''frac_D0bar_down'', ''frac_D0bar_down_2'', ''a0'', ''Nsig_D0bar_down'', ''Nbkg_D0bar_down''])]"
  unfolding models_eval by (simp add: declarations_eval plain_var_def)

end
